theory Spec2Isabelle
  imports Main "HOL-Library.Word"
begin

section \<open>Tokens of encoding/xml\<close>

text \<open>
  The token source is Go's \<^verbatim>\<open>encoding/xml\<close>. A \<^verbatim>\<open>xml.Name\<close> is a namespace and a local
  name, an attribute is a name and a value, and a token is a start element, an end
  element, character data, or one of the kinds that \<^verbatim>\<open>ParseToken\<close> ignores. Go strings and
  byte slices are both sequences of bytes: \<open>string\<close>.
\<close>

record Name =
  Space :: string
  Local :: string

record Attr =
  Name :: Name
  Value :: string

record StartElement =
  Name :: Name
  Attr :: "Attr list"

datatype Token =
    xml_StartElement StartElement
  | xml_EndElement Name
  | xml_CharData string
  | xml_Comment string
  | xml_ProcInst string string
  | xml_Directive string

section \<open>Errors\<close>

text \<open>
  One constructor for each \<^verbatim>\<open>fmt.Errorf\<close> of the package, \<open>lib_error\<close> for an error value
  that comes out of the standard library (strconv, time, base64, the decoder), and
  \<open>error_while_parsing\<close> for the wrapper that \<^verbatim>\<open>Parse\<close> builds around its \<^verbatim>\<open>parseErrors\<close>.
\<close>

datatype error =
    unexpected_tag Name
  | unexpected_attr Name
  | unknown_attr string
  | unexpected_close_tag Name
  | Unknown_body_with_attr Attr
  | error_while_parsing string "error list"
  | lib_error string

section \<open>The data model\<close>

type_synonym addr = nat

text \<open>A \<^verbatim>\<open>float64\<close> is its IEEE 754 bit pattern; a \<^verbatim>\<open>time.Time\<close> is an instant in seconds.\<close>

type_synonym float64 = "64 word"
type_synonym Time = int

record XMLDate =
  Time :: Time

text \<open>
  The entries of a \<^verbatim>\<open>Content []Contenter\<close> slice: raw text (\<^verbatim>\<open>CharData\<close>, a value) or a
  pointer to an element node.
\<close>

datatype Contenter = CharData string | Ref addr

text \<open>
  Every node type embeds \<^verbatim>\<open>baseNode\<close> exactly once and \<^verbatim>\<open>contentBase\<close> at most once, so
  a heap cell holds the \<^verbatim>\<open>XMLName\<close> of the former, the \<^verbatim>\<open>Content\<close> of the latter (never
  written for a type without \<^verbatim>\<open>contentBase\<close>), and the fields of the concrete struct.
  Other embeddings are nested records: \<^verbatim>\<open>P\<close> holds a \<^verbatim>\<open>StyleType\<close>. The fields named
  \<^verbatim>\<open>XMLName\<close> that \<^verbatim>\<open>Poem\<close>, \<^verbatim>\<open>Table\<close> and \<^verbatim>\<open>EmptyLine\<close> declare beside the embedded one are
  never read or written and are left out.
\<close>

record Title =
  Lang :: string

record Image =
  XlinkType :: string
  XlinkHref :: string
  Alt :: string
  Title :: string
  ID :: string

record StyleType =
  Lang :: string

record P =
  StyleType :: StyleType
  ID :: string
  Style :: string

record Cite =
  ID :: string
  Lang :: string
  TextAuthor :: "addr list"

record Poem =
  Title :: "addr option"
  Epigraphs :: "addr list"

record Stanza =
  Lang :: string
  Title :: "addr option"
  Subtitle :: "addr option"
  V :: "addr list"

record Epigraph =
  ID :: string
  TextAuthor :: "addr list"

record Annotation =
  ID :: string
  Lang :: string

record Section =
  Title :: "addr option"
  Epigraphs :: "addr list"
  Image :: "addr option"
  Annotation :: "addr option"
  Sections :: "addr list"
  ID :: string
  Lang :: string

record NamedStyleType =
  StyleType :: StyleType
  Name :: string

record Link =
  XlinkType :: string
  XlinkHref :: string
  Type :: string

record Table =
  TR :: "addr list"
  ID :: string
  Style :: string

record TR =
  Align :: string

record TD =
  StyleType :: StyleType
  ID :: string
  Style :: string
  Colspan :: int
  Rowspan :: int
  Align :: string
  Valign :: string

record InlineImage =
  XlinkType :: string
  XlinkHref :: string
  Alt :: string

record Body =
  Image :: "addr option"
  Title :: "addr option"
  Epigraphs :: "addr list"
  Sections :: "addr list"
  Lang :: string

record NotesBody =
  Body :: Body
  Name :: string

record FictionBook =
  Stylesheet :: "addr list"
  Description :: "addr option"
  Body :: "addr option"
  NotesBody :: "addr option"
  Binary :: "addr list"

record Stylesheet =
  Type :: string
  Value :: string

record Description =
  TitleInfo :: "addr option"
  SrcTitleInfo :: "addr option"
  DocumentInfo :: "addr option"
  PublishInfo :: "addr option"
  CustomInfo :: "addr list"
  Output :: "addr list"

record DocumentInfo =
  Authors :: "addr list"
  ProgramUsed :: "addr option"
  Date :: "addr option"
  SrcURLs :: "string list"
  SrcOcr :: "addr option"
  ID :: string
  Version :: float64
  History :: "addr option"
  Publishers :: "addr list"

record PublishInfo =
  BookName :: "addr option"
  Publisher :: "addr option"
  City :: "addr option"
  Year :: string
  ISBN :: "addr option"
  Sequences :: "addr list"

record TextField =
  Lang :: string
  Value :: string

record CustomInfo =
  TextField :: TextField
  InfoType :: string

record Binary =
  ID :: string
  ContentType :: string
  Value :: string

record Author =
  FirstName :: "addr option"
  MiddleName :: "addr option"
  LastName :: "addr option"
  Nickname :: "addr option"
  HomePages :: "string list"
  Emails :: "string list"
  ID :: string

record Date =
  Value :: "XMLDate option"
  Lang :: string
  StrValue :: string

record Sequence =
  Sequences :: "addr list"
  Name :: string
  Number :: int

record TitleInfo =
  Genres :: "addr list"
  Authors :: "addr list"
  BookTitle :: "addr option"
  Annotation :: "addr option"
  Keywords :: "addr option"
  Date :: "addr option"
  Coverpage :: "addr option"
  Lang :: string
  SrcLang :: string
  Translators :: "addr list"
  Sequences :: "addr list"

record Genre =
  Match :: "int option"
  Genre :: string

record Coverpage =
  Image :: "addr option"

record ShareInstruction =
  Mode :: string
  IncludeAll :: string
  Price :: float64
  Currency :: string
  Parts :: "addr list"
  OutputDocumentClass :: "addr list"

record PartShareInstruction =
  XlinkType :: string
  XlinkHref :: string
  Include :: string

record OutPutDocument =
  Name :: string
  Create :: string
  Price :: float64
  Parts :: "addr list"

text \<open>
  The scalar sinks of the parser hold a pointer into a field of the node that created
  them (\<^verbatim>\<open>&stringNode{s: &t.ID}\<close>): the address of that node and the field pointed to.
\<close>

datatype string_field =
    Table_ID | Author_ID | DocumentInfo_ID | PublishInfo_Year | TitleInfo_Lang | TitleInfo_SrcLang

datatype strings_field = Author_HomePages | Author_Emails | DocumentInfo_SrcURLs

datatype float_field = DocumentInfo_Version

text \<open>The concrete types behind the \<^verbatim>\<open>Node\<close> interface, one constructor for each.\<close>

datatype impl =
    NTitle Title
  | NImage Image
  | NP P
  | NCite Cite
  | NPoem Poem
  | NStanza Stanza
  | NEpigraph Epigraph
  | NAnnotation Annotation
  | NSection Section
  | NStyleType StyleType
  | NNamedStyleType NamedStyleType
  | NLink Link
  | NStyleLinkType
  | NTable Table
  | NTR TR
  | NTD TD
  | NInlineImage InlineImage
  | NEmptyLine
  | NBody Body
  | NNotesBody NotesBody
  | NFictionBook FictionBook
  | NStylesheet Stylesheet
  | NDescription Description
  | NDocumentInfo DocumentInfo
  | NPublishInfo PublishInfo
  | NCustomInfo CustomInfo
  | NBinary Binary
  | NAuthor Author
  | NTextField TextField
  | NDate Date
  | NSequence Sequence
  | NTitleInfo TitleInfo
  | NGenre Genre
  | NCoverpage Coverpage
  | NShareInstruction ShareInstruction
  | NPartShareInstruction PartShareInstruction
  | NOutPutDocument OutPutDocument
  | NstringNode addr string_field
  | NfloatNode addr float_field
  | NstringArrayNode addr strings_field

record node =
  XMLName :: Name
  Content :: "Contenter list"
  impl :: impl

text \<open>
  The store: the cell at every address, and the next address to hand out. \<^verbatim>\<open>&T{}\<close>
  takes the next address and stores the zero value of \<^verbatim>\<open>T\<close> there.
\<close>

record heap =
  cells :: "addr \<Rightarrow> node"
  nxt :: addr

definition new :: "impl \<Rightarrow> heap \<Rightarrow> addr \<times> heap" where
  "new i h =
     (nxt h,
      h\<lparr>cells := (cells h)(nxt h := \<lparr>XMLName = \<lparr>Space = [], Local = []\<rparr>, Content = [], impl = i\<rparr>),
        nxt := Suc (nxt h)\<rparr>)"


definition upd :: "addr \<Rightarrow> (node \<Rightarrow> node) \<Rightarrow> heap \<Rightarrow> heap" where
  "upd a f h = h\<lparr>cells := (cells h)(a := f (cells h a))\<rparr>"

definition set_impl :: "addr \<Rightarrow> impl \<Rightarrow> heap \<Rightarrow> heap" where
  "set_impl a i h = upd a (\<lambda>n. n\<lparr>impl := i\<rparr>) h"

text \<open>The idiom \<^verbatim>\<open>x := &T{}; <link x into its parent>; return x, nil\<close> of the tag callbacks.\<close>

definition attach :: "impl \<Rightarrow> (addr \<Rightarrow> heap \<Rightarrow> heap) \<Rightarrow> heap \<Rightarrow> (error + addr) \<times> heap" where
  "attach i link h = (case new i h of (x, h1) \<Rightarrow> (Inr x, link x h1))"

subsection \<open>Zero values\<close>

definition zero_Title :: Title where
  "zero_Title = \<lparr>Title.Lang = ''''\<rparr>"

definition zero_Image :: Image where
  "zero_Image = \<lparr>Image.XlinkType = '''', Image.XlinkHref = '''', Image.Alt = '''',
     Image.Title = '''', Image.ID = ''''\<rparr>"

definition zero_StyleType :: StyleType where
  "zero_StyleType = \<lparr>StyleType.Lang = ''''\<rparr>"

definition zero_P :: P where
  "zero_P = \<lparr>P.StyleType = zero_StyleType, P.ID = '''', P.Style = ''''\<rparr>"

definition zero_Cite :: Cite where
  "zero_Cite = \<lparr>Cite.ID = '''', Cite.Lang = '''', Cite.TextAuthor = []\<rparr>"

definition zero_Poem :: Poem where
  "zero_Poem = \<lparr>Poem.Title = None, Poem.Epigraphs = []\<rparr>"

definition zero_Stanza :: Stanza where
  "zero_Stanza = \<lparr>Stanza.Lang = '''', Stanza.Title = None, Stanza.Subtitle = None, Stanza.V = []\<rparr>"

definition zero_Epigraph :: Epigraph where
  "zero_Epigraph = \<lparr>Epigraph.ID = '''', Epigraph.TextAuthor = []\<rparr>"

definition zero_Annotation :: Annotation where
  "zero_Annotation = \<lparr>Annotation.ID = '''', Annotation.Lang = ''''\<rparr>"

definition zero_Section :: Section where
  "zero_Section = \<lparr>Section.Title = None, Section.Epigraphs = [], Section.Image = None,
     Section.Annotation = None, Section.Sections = [], Section.ID = '''', Section.Lang = ''''\<rparr>"

definition zero_NamedStyleType :: NamedStyleType where
  "zero_NamedStyleType = \<lparr>NamedStyleType.StyleType = zero_StyleType, NamedStyleType.Name = ''''\<rparr>"

definition zero_Link :: Link where
  "zero_Link = \<lparr>Link.XlinkType = '''', Link.XlinkHref = '''', Link.Type = ''''\<rparr>"

definition zero_Table :: Table where
  "zero_Table = \<lparr>Table.TR = [], Table.ID = '''', Table.Style = ''''\<rparr>"

definition zero_TR :: TR where
  "zero_TR = \<lparr>TR.Align = ''''\<rparr>"

definition zero_TD :: TD where
  "zero_TD = \<lparr>TD.StyleType = zero_StyleType, TD.ID = '''', TD.Style = '''', TD.Colspan = 0,
     TD.Rowspan = 0, TD.Align = '''', TD.Valign = ''''\<rparr>"

definition zero_InlineImage :: InlineImage where
  "zero_InlineImage = \<lparr>InlineImage.XlinkType = '''', InlineImage.XlinkHref = '''',
     InlineImage.Alt = ''''\<rparr>"

definition zero_Body :: Body where
  "zero_Body = \<lparr>Body.Image = None, Body.Title = None, Body.Epigraphs = [], Body.Sections = [],
     Body.Lang = ''''\<rparr>"

definition zero_NotesBody :: NotesBody where
  "zero_NotesBody = \<lparr>NotesBody.Body = zero_Body, NotesBody.Name = ''''\<rparr>"

definition zero_FictionBook :: FictionBook where
  "zero_FictionBook = \<lparr>FictionBook.Stylesheet = [], FictionBook.Description = None,
     FictionBook.Body = None, FictionBook.NotesBody = None, FictionBook.Binary = []\<rparr>"

definition zero_Stylesheet :: Stylesheet where
  "zero_Stylesheet = \<lparr>Stylesheet.Type = '''', Stylesheet.Value = ''''\<rparr>"

definition zero_Description :: Description where
  "zero_Description = \<lparr>Description.TitleInfo = None, Description.SrcTitleInfo = None,
     Description.DocumentInfo = None, Description.PublishInfo = None,
     Description.CustomInfo = [], Description.Output = []\<rparr>"

definition zero_DocumentInfo :: DocumentInfo where
  "zero_DocumentInfo = \<lparr>DocumentInfo.Authors = [], DocumentInfo.ProgramUsed = None,
     DocumentInfo.Date = None, DocumentInfo.SrcURLs = [], DocumentInfo.SrcOcr = None,
     DocumentInfo.ID = '''', DocumentInfo.Version = 0, DocumentInfo.History = None,
     DocumentInfo.Publishers = []\<rparr>"

definition zero_PublishInfo :: PublishInfo where
  "zero_PublishInfo = \<lparr>PublishInfo.BookName = None, PublishInfo.Publisher = None,
     PublishInfo.City = None, PublishInfo.Year = '''', PublishInfo.ISBN = None,
     PublishInfo.Sequences = []\<rparr>"

definition zero_TextField :: TextField where
  "zero_TextField = \<lparr>TextField.Lang = '''', TextField.Value = ''''\<rparr>"

definition zero_CustomInfo :: CustomInfo where
  "zero_CustomInfo = \<lparr>CustomInfo.TextField = zero_TextField, CustomInfo.InfoType = ''''\<rparr>"

definition zero_Binary :: Binary where
  "zero_Binary = \<lparr>Binary.ID = '''', Binary.ContentType = '''', Binary.Value = ''''\<rparr>"

definition zero_Author :: Author where
  "zero_Author = \<lparr>Author.FirstName = None, Author.MiddleName = None, Author.LastName = None,
     Author.Nickname = None, Author.HomePages = [], Author.Emails = [], Author.ID = ''''\<rparr>"

definition zero_Date :: Date where
  "zero_Date = \<lparr>Date.Value = None, Date.Lang = '''', Date.StrValue = ''''\<rparr>"

definition zero_Sequence :: Sequence where
  "zero_Sequence = \<lparr>Sequence.Sequences = [], Sequence.Name = '''', Sequence.Number = 0\<rparr>"

definition zero_TitleInfo :: TitleInfo where
  "zero_TitleInfo = \<lparr>TitleInfo.Genres = [], TitleInfo.Authors = [], TitleInfo.BookTitle = None,
     TitleInfo.Annotation = None, TitleInfo.Keywords = None, TitleInfo.Date = None,
     TitleInfo.Coverpage = None, TitleInfo.Lang = '''', TitleInfo.SrcLang = '''',
     TitleInfo.Translators = [], TitleInfo.Sequences = []\<rparr>"

definition zero_Genre :: Genre where
  "zero_Genre = \<lparr>Genre.Match = None, Genre.Genre = ''''\<rparr>"

definition zero_Coverpage :: Coverpage where
  "zero_Coverpage = \<lparr>Coverpage.Image = None\<rparr>"

definition zero_ShareInstruction :: ShareInstruction where
  "zero_ShareInstruction = \<lparr>ShareInstruction.Mode = '''', ShareInstruction.IncludeAll = '''',
     ShareInstruction.Price = 0, ShareInstruction.Currency = '''', ShareInstruction.Parts = [],
     ShareInstruction.OutputDocumentClass = []\<rparr>"

definition zero_PartShareInstruction :: PartShareInstruction where
  "zero_PartShareInstruction = \<lparr>PartShareInstruction.XlinkType = '''',
     PartShareInstruction.XlinkHref = '''', PartShareInstruction.Include = ''''\<rparr>"

definition zero_OutPutDocument :: OutPutDocument where
  "zero_OutPutDocument = \<lparr>OutPutDocument.Name = '''', OutPutDocument.Create = '''',
     OutPutDocument.Price = 0, OutPutDocument.Parts = []\<rparr>"

text \<open>The store before anything is allocated; a cell at or beyond \<open>nxt\<close> is never read.\<close>

definition empty_heap :: heap where
  "empty_heap =
     \<lparr>cells = (\<lambda>a. \<lparr>XMLName = \<lparr>Space = [], Local = []\<rparr>, Content = [], impl = NEmptyLine\<rparr>),
      nxt = 0\<rparr>"


section \<open>The node contract\<close>

text \<open>
  The standard library functions the callbacks call are parameters of the model. Each
  returns its value together with its error, as the Go function does. \<open>time_Parse\<close> is
  \<^verbatim>\<open>time.Parse(dateFormat, \<cdot>)\<close> with the constant \<^verbatim>\<open>dateFormat = "2006-01-02"\<close>.
  \<open>base64_Decode src\<close> gives the bytes that \<^verbatim>\<open>base64.StdEncoding.Decode(dst, src)\<close> has
  written to the front of \<^verbatim>\<open>dst\<close> when it returns, and its error.
\<close>

record stdlib =
  Atoi :: "string \<Rightarrow> int \<times> error option"
  ParseFloat :: "string \<Rightarrow> float64 \<times> error option"
  time_Parse :: "string \<Rightarrow> Time \<times> error option"
  base64_Decode :: "string \<Rightarrow> string \<times> error option"

subsection \<open>baseNode and contentBase\<close>

definition baseNode_tagCallback :: "StartElement \<Rightarrow> heap \<Rightarrow> (error + addr) \<times> heap" where
  "baseNode_tagCallback start h = (Inl (unexpected_tag (StartElement.Name start)), h)"

definition baseNode_attrCallback :: "Attr \<Rightarrow> error option" where
  "baseNode_attrCallback attr = Some (unexpected_attr (Attr.Name attr))"

definition SetXMLName :: "addr \<Rightarrow> Name \<Rightarrow> heap \<Rightarrow> heap" where
  "SetXMLName a name h = upd a (\<lambda>n. n\<lparr>XMLName := name\<rparr>) h"

definition GetXMLName :: "addr \<Rightarrow> heap \<Rightarrow> Name" where
  "GetXMLName a h = XMLName (cells h a)"

definition appendContent :: "addr \<Rightarrow> Contenter \<Rightarrow> heap \<Rightarrow> heap" where
  "appendContent a cont h = upd a (\<lambda>n. n\<lparr>Content := Content n @ [cont]\<rparr>) h"

text \<open>\<^verbatim>\<open>mixed.charDataCallback\<close>: a copy of the text is appended to the content.\<close>

definition mixed_charDataCallback :: "addr \<Rightarrow> string \<Rightarrow> heap \<Rightarrow> error option \<times> heap" where
  "mixed_charDataCallback m e h = (None, upd m (\<lambda>n. n\<lparr>Content := Content n @ [CharData e]\<rparr>) h)"

subsection \<open>Tag callbacks of the content types\<close>

text \<open>
  A tag callback gets the address of its receiver and, where it assigns to a field of
  the receiver's own struct, the struct as it is in the store at the call.
\<close>

definition Title_tagCallback :: "addr \<Rightarrow> StartElement \<Rightarrow> heap \<Rightarrow> (error + addr) \<times> heap" where
  "Title_tagCallback t start h =
     (let tag = Local (StartElement.Name start) in
      if tag = ''p'' then attach (NP zero_P) (\<lambda>p. appendContent t (Ref p)) h
      else if tag = ''empty-line'' then attach NEmptyLine (\<lambda>el. appendContent t (Ref el)) h
      else baseNode_tagCallback start h)"

definition Cite_tagCallback :: "addr \<Rightarrow> Cite \<Rightarrow> StartElement \<Rightarrow> heap \<Rightarrow> (error + addr) \<times> heap" where
  "Cite_tagCallback c this start h =
     (let tag = Local (StartElement.Name start) in
      if tag = ''text-author'' then
        attach (NP zero_P)
          (\<lambda>p. set_impl c (NCite (this\<lparr>Cite.TextAuthor := Cite.TextAuthor this @ [p]\<rparr>))) h
      else if tag = ''p'' then attach (NP zero_P) (\<lambda>p. appendContent c (Ref p)) h
      else if tag = ''poem'' then attach (NPoem zero_Poem) (\<lambda>p. appendContent c (Ref p)) h
      else if tag = ''subtitle'' then attach (NP zero_P) (\<lambda>p. appendContent c (Ref p)) h
      else if tag = ''table'' then attach (NTable zero_Table) (\<lambda>t. appendContent c (Ref t)) h
      else if tag = ''empty-line'' then attach NEmptyLine (\<lambda>el. appendContent c (Ref el)) h
      else baseNode_tagCallback start h)"

definition Poem_tagCallback :: "addr \<Rightarrow> Poem \<Rightarrow> StartElement \<Rightarrow> heap \<Rightarrow> (error + addr) \<times> heap" where
  "Poem_tagCallback p this start h =
     (let tag = Local (StartElement.Name start) in
      if tag = ''title'' then
        attach (NTitle zero_Title) (\<lambda>t. set_impl p (NPoem (this\<lparr>Poem.Title := Some t\<rparr>))) h
      else if tag = ''epigraph'' then
        attach (NEpigraph zero_Epigraph)
          (\<lambda>ep. set_impl p (NPoem (this\<lparr>Poem.Epigraphs := Poem.Epigraphs this @ [ep]\<rparr>))) h
      else if tag = ''subtitle'' then attach (NP zero_P) (\<lambda>pp. appendContent p (Ref pp)) h
      else if tag = ''stanza'' then attach (NStanza zero_Stanza) (\<lambda>s. appendContent p (Ref s)) h
      else baseNode_tagCallback start h)"

definition Stanza_tagCallback :: "addr \<Rightarrow> Stanza \<Rightarrow> StartElement \<Rightarrow> heap \<Rightarrow> (error + addr) \<times> heap" where
  "Stanza_tagCallback s this start h =
     (let tag = Local (StartElement.Name start) in
      if tag = ''title'' then
        attach (NTitle zero_Title) (\<lambda>t. set_impl s (NStanza (this\<lparr>Stanza.Title := Some t\<rparr>))) h
      else if tag = ''subtitle'' then
        attach (NP zero_P) (\<lambda>p. set_impl s (NStanza (this\<lparr>Stanza.Subtitle := Some p\<rparr>))) h
      else if tag = ''v'' then
        attach (NP zero_P) (\<lambda>p. set_impl s (NStanza (this\<lparr>Stanza.V := Stanza.V this @ [p]\<rparr>))) h
      else baseNode_tagCallback start h)"

definition Epigraph_tagCallback :: "addr \<Rightarrow> Epigraph \<Rightarrow> StartElement \<Rightarrow> heap \<Rightarrow> (error + addr) \<times> heap" where
  "Epigraph_tagCallback ep this start h =
     (let tag = Local (StartElement.Name start) in
      if tag = ''text-author'' then
        attach (NP zero_P)
          (\<lambda>p. set_impl ep (NEpigraph (this\<lparr>Epigraph.TextAuthor := Epigraph.TextAuthor this @ [p]\<rparr>))) h
      else if tag = ''p'' then attach (NP zero_P) (\<lambda>p. appendContent ep (Ref p)) h
      else if tag = ''poem'' then attach (NPoem zero_Poem) (\<lambda>p. appendContent ep (Ref p)) h
      else if tag = ''cite'' then attach (NCite zero_Cite) (\<lambda>c. appendContent ep (Ref c)) h
      else if tag = ''empty-line'' then attach NEmptyLine (\<lambda>el. appendContent ep (Ref el)) h
      else baseNode_tagCallback start h)"

definition Annotation_tagCallback :: "addr \<Rightarrow> StartElement \<Rightarrow> heap \<Rightarrow> (error + addr) \<times> heap" where
  "Annotation_tagCallback a start h =
     (let tag = Local (StartElement.Name start) in
      if tag = ''p'' then attach (NP zero_P) (\<lambda>p. appendContent a (Ref p)) h
      else if tag = ''poem'' then attach (NPoem zero_Poem) (\<lambda>p. appendContent a (Ref p)) h
      else if tag = ''cite'' then attach (NCite zero_Cite) (\<lambda>c. appendContent a (Ref c)) h
      else if tag = ''subtitle'' then attach (NP zero_P) (\<lambda>p. appendContent a (Ref p)) h
      else if tag = ''table'' then attach (NTable zero_Table) (\<lambda>t. appendContent a (Ref t)) h
      else if tag = ''empty-line'' then attach NEmptyLine (\<lambda>el. appendContent a (Ref el)) h
      else baseNode_tagCallback start h)"

definition Section_tagCallback :: "addr \<Rightarrow> Section \<Rightarrow> StartElement \<Rightarrow> heap \<Rightarrow> (error + addr) \<times> heap" where
  "Section_tagCallback s this start h =
     (let tag = Local (StartElement.Name start) in
      if tag = ''title'' then
        attach (NTitle zero_Title) (\<lambda>t. set_impl s (NSection (this\<lparr>Section.Title := Some t\<rparr>))) h
      else if tag = ''epigraph'' then
        attach (NEpigraph zero_Epigraph)
          (\<lambda>ep. set_impl s (NSection (this\<lparr>Section.Epigraphs := Section.Epigraphs this @ [ep]\<rparr>))) h
      else if tag = ''image'' then
        attach (NImage zero_Image)
          (\<lambda>i h1. if length (Content (cells h1 s)) > 0 then appendContent s (Ref i) h1
                   else set_impl s (NSection (this\<lparr>Section.Image := Some i\<rparr>)) h1) h
      else if tag = ''annotation'' then
        attach (NAnnotation zero_Annotation)
          (\<lambda>a. set_impl s (NSection (this\<lparr>Section.Annotation := Some a\<rparr>))) h
      else if tag = ''section'' then
        attach (NSection zero_Section)
          (\<lambda>cs. set_impl s (NSection (this\<lparr>Section.Sections := Section.Sections this @ [cs]\<rparr>))) h
      else if tag = ''p'' then attach (NP zero_P) (\<lambda>p. appendContent s (Ref p)) h
      else if tag = ''poem'' then attach (NPoem zero_Poem) (\<lambda>p. appendContent s (Ref p)) h
      else if tag = ''subtitle'' then attach (NP zero_P) (\<lambda>p. appendContent s (Ref p)) h
      else if tag = ''cite'' then attach (NCite zero_Cite) (\<lambda>c. appendContent s (Ref c)) h
      else if tag = ''empty-line'' then attach NEmptyLine (\<lambda>el. appendContent s (Ref el)) h
      else if tag = ''table'' then attach (NTable zero_Table) (\<lambda>t. appendContent s (Ref t)) h
      else baseNode_tagCallback start h)"

definition StyleType_tagCallback :: "addr \<Rightarrow> StartElement \<Rightarrow> heap \<Rightarrow> (error + addr) \<times> heap" where
  "StyleType_tagCallback s start h =
     (let tag = Local (StartElement.Name start) in
      if tag = ''style'' then
        attach (NNamedStyleType zero_NamedStyleType) (\<lambda>nst. appendContent s (Ref nst)) h
      else if tag = ''a'' then attach (NLink zero_Link) (\<lambda>link. appendContent s (Ref link)) h
      else if tag = ''image'' then
        attach (NInlineImage zero_InlineImage) (\<lambda>i. appendContent s (Ref i)) h
      else if tag \<in> {''strong'', ''emphasis'', ''strikethrough'', ''sub'', ''sup'', ''code''} then
        attach (NStyleType zero_StyleType) (\<lambda>st. appendContent s (Ref st)) h
      else baseNode_tagCallback start h)"

definition StyleLinkType_tagCallback :: "addr \<Rightarrow> StartElement \<Rightarrow> heap \<Rightarrow> (error + addr) \<times> heap" where
  "StyleLinkType_tagCallback s start h =
     (let tag = Local (StartElement.Name start) in
      if tag = ''image'' then
        attach (NInlineImage zero_InlineImage) (\<lambda>i. appendContent s (Ref i)) h
      else if tag \<in> {''style'', ''strong'', ''emphasis'', ''strikethrough'', ''sub'', ''sup'', ''code''} then
        attach NStyleLinkType (\<lambda>c. appendContent s (Ref c)) h
      else baseNode_tagCallback start h)"

definition Table_tagCallback :: "addr \<Rightarrow> Table \<Rightarrow> StartElement \<Rightarrow> heap \<Rightarrow> (error + addr) \<times> heap" where
  "Table_tagCallback t this start h =
     (let tag = Local (StartElement.Name start) in
      if tag = ''id'' then attach (NstringNode t Table_ID) (\<lambda>s h1. h1) h
      else if tag = ''tr'' then
        attach (NTR zero_TR) (\<lambda>tr. set_impl t (NTable (this\<lparr>Table.TR := Table.TR this @ [tr]\<rparr>))) h
      else baseNode_tagCallback start h)"

definition TR_tagCallback :: "addr \<Rightarrow> StartElement \<Rightarrow> heap \<Rightarrow> (error + addr) \<times> heap" where
  "TR_tagCallback t start h =
     (let tag = Local (StartElement.Name start) in
      if tag \<in> {''th'', ''td''} then attach (NTD zero_TD) (\<lambda>td. appendContent t (Ref td)) h
      else baseNode_tagCallback start h)"

subsection \<open>Attribute callbacks of the content types\<close>

text \<open>An attribute callback writes only fields of its receiver's struct.\<close>

definition Title_attrCallback :: "Attr \<Rightarrow> Title \<Rightarrow> error option \<times> Title" where
  "Title_attrCallback attr t =
     (if Local (Attr.Name attr) = ''lang'' then (None, t\<lparr>Title.Lang := Attr.Value attr\<rparr>)
      else (baseNode_attrCallback attr, t))"

definition StyleType_attrCallback :: "Attr \<Rightarrow> StyleType \<Rightarrow> error option \<times> StyleType" where
  "StyleType_attrCallback attr s =
     (if Local (Attr.Name attr) = ''lang'' then (None, s\<lparr>StyleType.Lang := Attr.Value attr\<rparr>)
      else (Some (unknown_attr (Local (Attr.Name attr))), s))"

definition P_attrCallback :: "Attr \<Rightarrow> P \<Rightarrow> error option \<times> P" where
  "P_attrCallback attr p =
     (if Local (Attr.Name attr) = ''style'' then (None, p\<lparr>P.Style := Attr.Value attr\<rparr>)
      else if Local (Attr.Name attr) = ''id'' then (None, p\<lparr>P.ID := Attr.Value attr\<rparr>)
      else (case StyleType_attrCallback attr (P.StyleType p) of
              (err, s) \<Rightarrow> (err, p\<lparr>P.StyleType := s\<rparr>)))"

definition Cite_attrCallback :: "Attr \<Rightarrow> Cite \<Rightarrow> error option \<times> Cite" where
  "Cite_attrCallback attr c =
     (if Local (Attr.Name attr) = ''lang'' then (None, c\<lparr>Cite.Lang := Attr.Value attr\<rparr>)
      else if Local (Attr.Name attr) = ''id'' then (None, c\<lparr>Cite.ID := Attr.Value attr\<rparr>)
      else (baseNode_attrCallback attr, c))"

definition Stanza_attrCallback :: "Attr \<Rightarrow> Stanza \<Rightarrow> error option \<times> Stanza" where
  "Stanza_attrCallback attr s =
     (if Local (Attr.Name attr) = ''lang'' then (None, s\<lparr>Stanza.Lang := Attr.Value attr\<rparr>)
      else (baseNode_attrCallback attr, s))"

definition Epigraph_attrCallback :: "Attr \<Rightarrow> Epigraph \<Rightarrow> error option \<times> Epigraph" where
  "Epigraph_attrCallback attr ep =
     (if Local (Attr.Name attr) = ''id'' then (None, ep\<lparr>Epigraph.ID := Attr.Value attr\<rparr>)
      else (Some (unknown_attr (Local (Attr.Name attr))), ep))"

definition Annotation_attrCallback :: "Attr \<Rightarrow> Annotation \<Rightarrow> error option \<times> Annotation" where
  "Annotation_attrCallback attr a =
     (if Local (Attr.Name attr) = ''lang'' then (None, a\<lparr>Annotation.Lang := Attr.Value attr\<rparr>)
      else if Local (Attr.Name attr) = ''id'' then (None, a\<lparr>Annotation.ID := Attr.Value attr\<rparr>)
      else (Some (unknown_attr (Local (Attr.Name attr))), a))"

definition Section_attrCallback :: "Attr \<Rightarrow> Section \<Rightarrow> error option \<times> Section" where
  "Section_attrCallback attr s =
     (if Local (Attr.Name attr) = ''lang'' then (None, s\<lparr>Section.Lang := Attr.Value attr\<rparr>)
      else if Local (Attr.Name attr) = ''id'' then (None, s\<lparr>Section.ID := Attr.Value attr\<rparr>)
      else (baseNode_attrCallback attr, s))"

definition NamedStyleType_attrCallback :: "Attr \<Rightarrow> NamedStyleType \<Rightarrow> error option \<times> NamedStyleType" where
  "NamedStyleType_attrCallback attr s =
     (if Local (Attr.Name attr) = ''name'' then (None, s\<lparr>NamedStyleType.Name := Attr.Value attr\<rparr>)
      else (case StyleType_attrCallback attr (NamedStyleType.StyleType s) of
              (err, st) \<Rightarrow> (err, s\<lparr>NamedStyleType.StyleType := st\<rparr>)))"

definition Link_attrCallback :: "Attr \<Rightarrow> Link \<Rightarrow> error option \<times> Link" where
  "Link_attrCallback attr l =
     (if Local (Attr.Name attr) = ''type'' then
        (if Space (Attr.Name attr) = '''' then (None, l\<lparr>Link.Type := Attr.Value attr\<rparr>)
         else (None, l\<lparr>Link.XlinkType := Attr.Value attr\<rparr>))
      else if Local (Attr.Name attr) = ''href'' then (None, l\<lparr>Link.XlinkHref := Attr.Value attr\<rparr>)
      else (Some (unknown_attr (Local (Attr.Name attr))), l))"

definition Table_attrCallback :: "Attr \<Rightarrow> Table \<Rightarrow> error option \<times> Table" where
  "Table_attrCallback attr t =
     (if Local (Attr.Name attr) = ''style'' then (None, t\<lparr>Table.Style := Attr.Value attr\<rparr>)
      else (baseNode_attrCallback attr, t))"

definition TR_attrCallback :: "Attr \<Rightarrow> TR \<Rightarrow> error option \<times> TR" where
  "TR_attrCallback attr t =
     (if Local (Attr.Name attr) = ''align'' then (None, t\<lparr>TR.Align := Attr.Value attr\<rparr>)
      else (baseNode_attrCallback attr, t))"

definition TD_attrCallback :: "stdlib \<Rightarrow> Attr \<Rightarrow> TD \<Rightarrow> error option \<times> TD" where
  "TD_attrCallback lib attr t =
     (let name = Local (Attr.Name attr) in
      if name = ''id'' then (None, t\<lparr>TD.ID := Attr.Value attr\<rparr>)
      else if name = ''style'' then (None, t\<lparr>TD.Style := Attr.Value attr\<rparr>)
      else if name = ''colspan'' then
        (case Atoi lib (Attr.Value attr) of (c, err) \<Rightarrow> (err, t\<lparr>TD.Colspan := c\<rparr>))
      else if name = ''rowspan'' then
        (case Atoi lib (Attr.Value attr) of (r, err) \<Rightarrow> (err, t\<lparr>TD.Rowspan := r\<rparr>))
      else if name = ''align'' then (None, t\<lparr>TD.Align := Attr.Value attr\<rparr>)
      else if name = ''valign'' then (None, t\<lparr>TD.Valign := Attr.Value attr\<rparr>)
      else (baseNode_attrCallback attr, t))"

definition InlineImage_attrCallback :: "Attr \<Rightarrow> InlineImage \<Rightarrow> error option \<times> InlineImage" where
  "InlineImage_attrCallback attr i =
     (let name = Local (Attr.Name attr) in
      if name = ''type'' then (None, i\<lparr>InlineImage.XlinkType := Attr.Value attr\<rparr>)
      else if name = ''href'' then (None, i\<lparr>InlineImage.XlinkHref := Attr.Value attr\<rparr>)
      else if name = ''alt'' then (None, i\<lparr>InlineImage.Alt := Attr.Value attr\<rparr>)
      else (baseNode_attrCallback attr, i))"


subsection \<open>Tag callbacks of the document and description types\<close>

definition Body_tagCallback :: "addr \<Rightarrow> Body \<Rightarrow> (Body \<Rightarrow> impl) \<Rightarrow> StartElement \<Rightarrow> heap \<Rightarrow> (error + addr) \<times> heap" where
  \<comment> \<open>\<open>wrap\<close> puts the \<^verbatim>\<open>Body\<close> back into the struct that embeds it (\<^verbatim>\<open>NotesBody\<close>), if any\<close>
  "Body_tagCallback b this wrap start h =
     (let tag = Local (StartElement.Name start) in
      if tag = ''image'' then
        attach (NImage zero_Image) (\<lambda>i. set_impl b (wrap (this\<lparr>Body.Image := Some i\<rparr>))) h
      else if tag = ''title'' then
        attach (NTitle zero_Title) (\<lambda>t. set_impl b (wrap (this\<lparr>Body.Title := Some t\<rparr>))) h
      else if tag = ''epigraph'' then
        attach (NEpigraph zero_Epigraph)
          (\<lambda>ep. set_impl b (wrap (this\<lparr>Body.Epigraphs := Body.Epigraphs this @ [ep]\<rparr>))) h
      else if tag = ''section'' then
        attach (NSection zero_Section)
          (\<lambda>cs. set_impl b (wrap (this\<lparr>Body.Sections := Body.Sections this @ [cs]\<rparr>))) h
      else baseNode_tagCallback start h)"

definition FictionBook_tagCallback :: "addr \<Rightarrow> FictionBook \<Rightarrow> StartElement \<Rightarrow> heap \<Rightarrow> (error + addr) \<times> heap" where
  "FictionBook_tagCallback f this start h =
     (let tag = Local (StartElement.Name start) in
      if tag = ''stylesheet'' then
        attach (NStylesheet zero_Stylesheet)
          (\<lambda>s. set_impl f (NFictionBook (this\<lparr>FictionBook.Stylesheet := FictionBook.Stylesheet this @ [s]\<rparr>))) h
      else if tag = ''description'' then
        attach (NDescription zero_Description)
          (\<lambda>d. set_impl f (NFictionBook (this\<lparr>FictionBook.Description := Some d\<rparr>))) h
      else if tag = ''body'' then
        (case StartElement.Attr start of
           [] \<Rightarrow>
             attach (NBody zero_Body) (\<lambda>b. set_impl f (NFictionBook (this\<lparr>FictionBook.Body := Some b\<rparr>))) h
         | attr0 # _ \<Rightarrow>
             if Local (Attr.Name attr0) = ''name'' \<and> Attr.Value attr0 = ''notes'' then
               attach (NNotesBody zero_NotesBody)
                 (\<lambda>b. set_impl f (NFictionBook (this\<lparr>FictionBook.NotesBody := Some b\<rparr>))) h
             else (Inl (Unknown_body_with_attr attr0), h))
      else if tag = ''binary'' then
        attach (NBinary zero_Binary)
          (\<lambda>b. set_impl f (NFictionBook (this\<lparr>FictionBook.Binary := FictionBook.Binary this @ [b]\<rparr>))) h
      else baseNode_tagCallback start h)"

definition Description_tagCallback :: "addr \<Rightarrow> Description \<Rightarrow> StartElement \<Rightarrow> heap \<Rightarrow> (error + addr) \<times> heap" where
  "Description_tagCallback d this start h =
     (let tag = Local (StartElement.Name start) in
      if tag = ''title-info'' then
        attach (NTitleInfo zero_TitleInfo)
          (\<lambda>x. set_impl d (NDescription (this\<lparr>Description.TitleInfo := Some x\<rparr>))) h
      else if tag = ''src-title-info'' then
        attach (NTitleInfo zero_TitleInfo)
          (\<lambda>x. set_impl d (NDescription (this\<lparr>Description.SrcTitleInfo := Some x\<rparr>))) h
      else if tag = ''document-info'' then
        attach (NDocumentInfo zero_DocumentInfo)
          (\<lambda>x. set_impl d (NDescription (this\<lparr>Description.DocumentInfo := Some x\<rparr>))) h
      else if tag = ''publish-info'' then
        attach (NPublishInfo zero_PublishInfo)
          (\<lambda>x. set_impl d (NDescription (this\<lparr>Description.PublishInfo := Some x\<rparr>))) h
      else if tag = ''custom-info'' then
        attach (NCustomInfo zero_CustomInfo)
          (\<lambda>ci. set_impl d (NDescription (this\<lparr>Description.CustomInfo := Description.CustomInfo this @ [ci]\<rparr>))) h
      else if tag = ''output'' then
        attach (NShareInstruction zero_ShareInstruction)
          (\<lambda>out. set_impl d (NDescription (this\<lparr>Description.Output := Description.Output this @ [out]\<rparr>))) h
      else baseNode_tagCallback start h)"

definition DocumentInfo_tagCallback :: "addr \<Rightarrow> DocumentInfo \<Rightarrow> StartElement \<Rightarrow> heap \<Rightarrow> (error + addr) \<times> heap" where
  "DocumentInfo_tagCallback di this start h =
     (let tag = Local (StartElement.Name start) in
      if tag = ''author'' then
        attach (NAuthor zero_Author)
          (\<lambda>a. set_impl di (NDocumentInfo (this\<lparr>DocumentInfo.Authors := DocumentInfo.Authors this @ [a]\<rparr>))) h
      else if tag = ''program-used'' then
        attach (NTextField zero_TextField)
          (\<lambda>x. set_impl di (NDocumentInfo (this\<lparr>DocumentInfo.ProgramUsed := Some x\<rparr>))) h
      else if tag = ''date'' then
        attach (NDate zero_Date) (\<lambda>x. set_impl di (NDocumentInfo (this\<lparr>DocumentInfo.Date := Some x\<rparr>))) h
      else if tag = ''src-url'' then attach (NstringArrayNode di DocumentInfo_SrcURLs) (\<lambda>s h1. h1) h
      else if tag = ''src-ocr'' then
        attach (NTextField zero_TextField)
          (\<lambda>x. set_impl di (NDocumentInfo (this\<lparr>DocumentInfo.SrcOcr := Some x\<rparr>))) h
      else if tag = ''id'' then attach (NstringNode di DocumentInfo_ID) (\<lambda>s h1. h1) h
      else if tag = ''version'' then attach (NfloatNode di DocumentInfo_Version) (\<lambda>s h1. h1) h
      else if tag = ''history'' then
        attach (NAnnotation zero_Annotation)
          (\<lambda>x. set_impl di (NDocumentInfo (this\<lparr>DocumentInfo.History := Some x\<rparr>))) h
      else if tag = ''publisher'' then
        attach (NAuthor zero_Author)
          (\<lambda>a. set_impl di (NDocumentInfo (this\<lparr>DocumentInfo.Publishers := DocumentInfo.Publishers this @ [a]\<rparr>))) h
      else baseNode_tagCallback start h)"

definition PublishInfo_tagCallback :: "addr \<Rightarrow> PublishInfo \<Rightarrow> StartElement \<Rightarrow> heap \<Rightarrow> (error + addr) \<times> heap" where
  "PublishInfo_tagCallback pi this start h =
     (let tag = Local (StartElement.Name start) in
      if tag = ''book-name'' then
        attach (NTextField zero_TextField)
          (\<lambda>x. set_impl pi (NPublishInfo (this\<lparr>PublishInfo.BookName := Some x\<rparr>))) h
      else if tag = ''publisher'' then
        attach (NTextField zero_TextField)
          (\<lambda>x. set_impl pi (NPublishInfo (this\<lparr>PublishInfo.Publisher := Some x\<rparr>))) h
      else if tag = ''city'' then
        attach (NTextField zero_TextField)
          (\<lambda>x. set_impl pi (NPublishInfo (this\<lparr>PublishInfo.City := Some x\<rparr>))) h
      else if tag = ''year'' then attach (NstringNode pi PublishInfo_Year) (\<lambda>s h1. h1) h
      else if tag = ''isbn'' then
        attach (NTextField zero_TextField)
          (\<lambda>x. set_impl pi (NPublishInfo (this\<lparr>PublishInfo.ISBN := Some x\<rparr>))) h
      else if tag = ''sequence'' then
        attach (NSequence zero_Sequence)
          (\<lambda>s. set_impl pi (NPublishInfo (this\<lparr>PublishInfo.Sequences := PublishInfo.Sequences this @ [s]\<rparr>))) h
      else baseNode_tagCallback start h)"

definition Author_tagCallback :: "addr \<Rightarrow> Author \<Rightarrow> StartElement \<Rightarrow> heap \<Rightarrow> (error + addr) \<times> heap" where
  "Author_tagCallback a this start h =
     (let tag = Local (StartElement.Name start) in
      if tag = ''first-name'' then
        attach (NTextField zero_TextField) (\<lambda>x. set_impl a (NAuthor (this\<lparr>Author.FirstName := Some x\<rparr>))) h
      else if tag = ''middle-name'' then
        attach (NTextField zero_TextField) (\<lambda>x. set_impl a (NAuthor (this\<lparr>Author.MiddleName := Some x\<rparr>))) h
      else if tag = ''last-name'' then
        attach (NTextField zero_TextField) (\<lambda>x. set_impl a (NAuthor (this\<lparr>Author.LastName := Some x\<rparr>))) h
      else if tag = ''nickname'' then
        attach (NTextField zero_TextField) (\<lambda>x. set_impl a (NAuthor (this\<lparr>Author.Nickname := Some x\<rparr>))) h
      else if tag = ''home-page'' then attach (NstringArrayNode a Author_HomePages) (\<lambda>s h1. h1) h
      else if tag = ''email'' then attach (NstringArrayNode a Author_Emails) (\<lambda>s h1. h1) h
      else if tag = ''id'' then attach (NstringNode a Author_ID) (\<lambda>s h1. h1) h
      else baseNode_tagCallback start h)"

definition Sequence_tagCallback :: "addr \<Rightarrow> Sequence \<Rightarrow> StartElement \<Rightarrow> heap \<Rightarrow> (error + addr) \<times> heap" where
  "Sequence_tagCallback s this start h =
     (if Local (StartElement.Name start) = ''sequence'' then
        attach (NSequence zero_Sequence)
          (\<lambda>x. set_impl s (NSequence (this\<lparr>Sequence.Sequences := Sequence.Sequences this @ [x]\<rparr>))) h
      else baseNode_tagCallback start h)"

definition TitleInfo_tagCallback :: "addr \<Rightarrow> TitleInfo \<Rightarrow> StartElement \<Rightarrow> heap \<Rightarrow> (error + addr) \<times> heap" where
  "TitleInfo_tagCallback ti this start h =
     (let tag = Local (StartElement.Name start) in
      if tag = ''genre'' then
        attach (NGenre zero_Genre)
          (\<lambda>g. set_impl ti (NTitleInfo (this\<lparr>TitleInfo.Genres := TitleInfo.Genres this @ [g]\<rparr>))) h
      else if tag = ''author'' then
        attach (NAuthor zero_Author)
          (\<lambda>a. set_impl ti (NTitleInfo (this\<lparr>TitleInfo.Authors := TitleInfo.Authors this @ [a]\<rparr>))) h
      else if tag = ''book-title'' then
        attach (NTextField zero_TextField)
          (\<lambda>x. set_impl ti (NTitleInfo (this\<lparr>TitleInfo.BookTitle := Some x\<rparr>))) h
      else if tag = ''annotation'' then
        attach (NAnnotation zero_Annotation)
          (\<lambda>x. set_impl ti (NTitleInfo (this\<lparr>TitleInfo.Annotation := Some x\<rparr>))) h
      else if tag = ''keywords'' then
        attach (NTextField zero_TextField)
          (\<lambda>x. set_impl ti (NTitleInfo (this\<lparr>TitleInfo.Keywords := Some x\<rparr>))) h
      else if tag = ''date'' then
        attach (NDate zero_Date) (\<lambda>x. set_impl ti (NTitleInfo (this\<lparr>TitleInfo.Date := Some x\<rparr>))) h
      else if tag = ''coverpage'' then
        attach (NCoverpage zero_Coverpage)
          (\<lambda>x. set_impl ti (NTitleInfo (this\<lparr>TitleInfo.Coverpage := Some x\<rparr>))) h
      else if tag = ''lang'' then attach (NstringNode ti TitleInfo_Lang) (\<lambda>s h1. h1) h
      else if tag = ''src-lang'' then attach (NstringNode ti TitleInfo_SrcLang) (\<lambda>s h1. h1) h
      else if tag = ''translator'' then
        attach (NAuthor zero_Author)
          (\<lambda>a. set_impl ti (NTitleInfo (this\<lparr>TitleInfo.Translators := TitleInfo.Translators this @ [a]\<rparr>))) h
      else if tag = ''sequence'' then
        attach (NSequence zero_Sequence)
          (\<lambda>s. set_impl ti (NTitleInfo (this\<lparr>TitleInfo.Sequences := TitleInfo.Sequences this @ [s]\<rparr>))) h
      else baseNode_tagCallback start h)"

definition Coverpage_tagCallback :: "addr \<Rightarrow> Coverpage \<Rightarrow> StartElement \<Rightarrow> heap \<Rightarrow> (error + addr) \<times> heap" where
  "Coverpage_tagCallback c this start h =
     (if Local (StartElement.Name start) = ''image'' then
        attach (NInlineImage zero_InlineImage)
          (\<lambda>i. set_impl c (NCoverpage (this\<lparr>Coverpage.Image := Some i\<rparr>))) h
      else baseNode_tagCallback start h)"

definition ShareInstruction_tagCallback :: "addr \<Rightarrow> ShareInstruction \<Rightarrow> StartElement \<Rightarrow> heap \<Rightarrow> (error + addr) \<times> heap" where
  "ShareInstruction_tagCallback si this start h =
     (let tag = Local (StartElement.Name start) in
      if tag = ''part'' then
        attach (NPartShareInstruction zero_PartShareInstruction)
          (\<lambda>p. set_impl si (NShareInstruction (this\<lparr>ShareInstruction.Parts := ShareInstruction.Parts this @ [p]\<rparr>))) h
      else if tag = ''output-document-class'' then
        attach (NOutPutDocument zero_OutPutDocument)
          (\<lambda>out. set_impl si (NShareInstruction
             (this\<lparr>ShareInstruction.OutputDocumentClass := ShareInstruction.OutputDocumentClass this @ [out]\<rparr>))) h
      else baseNode_tagCallback start h)"

definition OutPutDocument_tagCallback :: "addr \<Rightarrow> OutPutDocument \<Rightarrow> StartElement \<Rightarrow> heap \<Rightarrow> (error + addr) \<times> heap" where
  "OutPutDocument_tagCallback od this start h =
     (if Local (StartElement.Name start) = ''part'' then
        attach (NPartShareInstruction zero_PartShareInstruction)
          (\<lambda>p. set_impl od (NOutPutDocument (this\<lparr>OutPutDocument.Parts := OutPutDocument.Parts this @ [p]\<rparr>))) h
      else baseNode_tagCallback start h)"

subsection \<open>Attribute callbacks of the document and description types\<close>

definition Body_attrCallback :: "Attr \<Rightarrow> Body \<Rightarrow> error option \<times> Body" where
  "Body_attrCallback attr b =
     (if Local (Attr.Name attr) = ''lang'' then (None, b\<lparr>Body.Lang := Attr.Value attr\<rparr>)
      else (baseNode_attrCallback attr, b))"

definition NotesBody_attrCallback :: "Attr \<Rightarrow> NotesBody \<Rightarrow> error option \<times> NotesBody" where
  "NotesBody_attrCallback attr b =
     (if Local (Attr.Name attr) = ''name'' then (None, b\<lparr>NotesBody.Name := Attr.Value attr\<rparr>)
      else (case Body_attrCallback attr (NotesBody.Body b) of
              (err, b') \<Rightarrow> (err, b\<lparr>NotesBody.Body := b'\<rparr>)))"

definition FictionBook_attrCallback :: "Attr \<Rightarrow> FictionBook \<Rightarrow> error option \<times> FictionBook" where
  "FictionBook_attrCallback attr f = (None, f)"

definition Stylesheet_attrCallback :: "Attr \<Rightarrow> Stylesheet \<Rightarrow> error option \<times> Stylesheet" where
  "Stylesheet_attrCallback attr s =
     (if Local (Attr.Name attr) = ''type'' then (None, s\<lparr>Stylesheet.Type := Attr.Value attr\<rparr>)
      else (baseNode_attrCallback attr, s))"

definition TextField_attrCallback :: "Attr \<Rightarrow> TextField \<Rightarrow> error option \<times> TextField" where
  "TextField_attrCallback attr t =
     (if Local (Attr.Name attr) = ''lang'' then (None, t\<lparr>TextField.Lang := Attr.Value attr\<rparr>)
      else (baseNode_attrCallback attr, t))"

definition CustomInfo_attrCallback :: "Attr \<Rightarrow> CustomInfo \<Rightarrow> error option \<times> CustomInfo" where
  "CustomInfo_attrCallback attr ci =
     (if Local (Attr.Name attr) = ''info-type'' then (None, ci\<lparr>CustomInfo.InfoType := Attr.Value attr\<rparr>)
      else (case TextField_attrCallback attr (CustomInfo.TextField ci) of
              (err, t) \<Rightarrow> (err, ci\<lparr>CustomInfo.TextField := t\<rparr>)))"

definition Binary_attrCallback :: "Attr \<Rightarrow> Binary \<Rightarrow> error option \<times> Binary" where
  "Binary_attrCallback attr b =
     (if Local (Attr.Name attr) = ''content-type'' then (None, b\<lparr>Binary.ContentType := Attr.Value attr\<rparr>)
      else if Local (Attr.Name attr) = ''id'' then (None, b\<lparr>Binary.ID := Attr.Value attr\<rparr>)
      else (baseNode_attrCallback attr, b))"

definition Date_attrCallback :: "stdlib \<Rightarrow> Attr \<Rightarrow> Date \<Rightarrow> error option \<times> Date" where
  "Date_attrCallback lib attr d =
     (if Local (Attr.Name attr) = ''value'' then
        (case time_Parse lib (Attr.Value attr) of
           (parse, Some err) \<Rightarrow> (Some err, d)
         | (parse, None) \<Rightarrow> (None, d\<lparr>Date.Value := Some \<lparr>Time = parse\<rparr>\<rparr>))
      else if Local (Attr.Name attr) = ''lang'' then (None, d\<lparr>Date.Lang := Attr.Value attr\<rparr>)
      else (baseNode_attrCallback attr, d))"

text \<open>\<^verbatim>\<open>XMLDate.UnmarshalXMLAttr\<close> of xml_types.go, which the parser itself never calls.\<close>

definition UnmarshalXMLAttr :: "stdlib \<Rightarrow> Attr \<Rightarrow> XMLDate \<Rightarrow> error option \<times> XMLDate" where
  "UnmarshalXMLAttr lib attr d =
     (case time_Parse lib (Attr.Value attr) of
        (parse, Some err) \<Rightarrow> (Some err, d)
      | (parse, None) \<Rightarrow> (None, d\<lparr>Time := parse\<rparr>))"

definition Sequence_attrCallback :: "stdlib \<Rightarrow> Attr \<Rightarrow> Sequence \<Rightarrow> error option \<times> Sequence" where
  "Sequence_attrCallback lib attr s =
     (if Local (Attr.Name attr) = ''name'' then (None, s\<lparr>Sequence.Name := Attr.Value attr\<rparr>)
      else if Local (Attr.Name attr) = ''number'' then
        (case Atoi lib (Attr.Value attr) of
           (n, Some err) \<Rightarrow> (Some err, s)
         | (n, None) \<Rightarrow> (None, s\<lparr>Sequence.Number := n\<rparr>))
      else (baseNode_attrCallback attr, s))"

definition Genre_attrCallback :: "stdlib \<Rightarrow> Attr \<Rightarrow> Genre \<Rightarrow> error option \<times> Genre" where
  "Genre_attrCallback lib attr g =
     (if Local (Attr.Name attr) = ''match'' then
        (case Atoi lib (Attr.Value attr) of
           (match, Some err) \<Rightarrow> (Some err, g)
         | (match, None) \<Rightarrow> (None, g\<lparr>Genre.Match := Some match\<rparr>))
      else (baseNode_attrCallback attr, g))"

definition ShareInstruction_attrCallback :: "stdlib \<Rightarrow> Attr \<Rightarrow> ShareInstruction \<Rightarrow> error option \<times> ShareInstruction" where
  "ShareInstruction_attrCallback lib attr si =
     (let name = Local (Attr.Name attr) in
      if name = ''mode'' then (None, si\<lparr>ShareInstruction.Mode := Attr.Value attr\<rparr>)
      else if name = ''include-all'' then (None, si\<lparr>ShareInstruction.IncludeAll := Attr.Value attr\<rparr>)
      else if name = ''price'' then
        (case ParseFloat lib (Attr.Value attr) of (p, err) \<Rightarrow> (err, si\<lparr>ShareInstruction.Price := p\<rparr>))
      else if name = ''currency'' then (None, si\<lparr>ShareInstruction.Currency := Attr.Value attr\<rparr>)
      else (baseNode_attrCallback attr, si))"

definition PartShareInstruction_attrCallback :: "Attr \<Rightarrow> PartShareInstruction \<Rightarrow> error option \<times> PartShareInstruction" where
  "PartShareInstruction_attrCallback attr psi =
     (let name = Local (Attr.Name attr) in
      if name = ''type'' then (None, psi\<lparr>PartShareInstruction.XlinkType := Attr.Value attr\<rparr>)
      else if name = ''href'' then (None, psi\<lparr>PartShareInstruction.XlinkHref := Attr.Value attr\<rparr>)
      else if name = ''include'' then (None, psi\<lparr>PartShareInstruction.Include := Attr.Value attr\<rparr>)
      else (baseNode_attrCallback attr, psi))"

definition OutPutDocument_attrCallback :: "stdlib \<Rightarrow> Attr \<Rightarrow> OutPutDocument \<Rightarrow> error option \<times> OutPutDocument" where
  "OutPutDocument_attrCallback lib attr od =
     (let name = Local (Attr.Name attr) in
      if name = ''name'' then (None, od\<lparr>OutPutDocument.Name := Attr.Value attr\<rparr>)
      else if name = ''create'' then (None, od\<lparr>OutPutDocument.Create := Attr.Value attr\<rparr>)
      else if name = ''price'' then
        (case ParseFloat lib (Attr.Value attr) of (p, err) \<Rightarrow> (err, od\<lparr>OutPutDocument.Price := p\<rparr>))
      else (baseNode_attrCallback attr, od))"

subsection \<open>Character data callbacks\<close>

definition Stylesheet_charDataCallback :: "string \<Rightarrow> Stylesheet \<Rightarrow> error option \<times> Stylesheet" where
  "Stylesheet_charDataCallback cd s = (None, s\<lparr>Stylesheet.Value := cd\<rparr>)"

text \<open>
  \<^verbatim>\<open>Binary.charDataCallback\<close>. \<^verbatim>\<open>b.Value = make([]byte, len(cd))\<close> is a buffer of \<open>length cd\<close>
  zero bytes; \<^verbatim>\<open>Decode\<close> writes to its front (at most \<^verbatim>\<open>DecodedLen(len(cd))\<close> bytes, which
  is no more than \<open>length cd\<close>) and returns how many it wrote; the buffer is cut to that
  length only after the error check.
\<close>

definition Binary_charDataCallback :: "stdlib \<Rightarrow> string \<Rightarrow> Binary \<Rightarrow> error option \<times> Binary" where
  "Binary_charDataCallback lib cd b =
     (case base64_Decode lib cd of
        (written, err) \<Rightarrow>
          (let buf = take (length cd) (written @ replicate (length cd - length written) (CHR 0x00));
               n = length written in
           case err of
             Some e \<Rightarrow> (Some e, b\<lparr>Binary.Value := buf\<rparr>)
           | None \<Rightarrow> (None, b\<lparr>Binary.Value := take n buf\<rparr>)))"

definition TextField_charDataCallback :: "string \<Rightarrow> TextField \<Rightarrow> error option \<times> TextField" where
  "TextField_charDataCallback cd t = (None, t\<lparr>TextField.Value := cd\<rparr>)"

definition Date_charDataCallback :: "string \<Rightarrow> Date \<Rightarrow> error option \<times> Date" where
  "Date_charDataCallback cd d = (None, d\<lparr>Date.StrValue := cd\<rparr>)"

definition Genre_charDataCallback :: "string \<Rightarrow> Genre \<Rightarrow> error option \<times> Genre" where
  "Genre_charDataCallback cd g = (None, g\<lparr>Genre.Genre := cd\<rparr>)"

text \<open>The sinks of the parser write through their pointer into the node that made them.\<close>

definition store_string :: "string_field \<Rightarrow> string \<Rightarrow> impl \<Rightarrow> impl" where
  "store_string f v i =
     (case f of
        Table_ID \<Rightarrow> (case i of NTable t \<Rightarrow> NTable (t\<lparr>Table.ID := v\<rparr>) | _ \<Rightarrow> i)
      | Author_ID \<Rightarrow> (case i of NAuthor a \<Rightarrow> NAuthor (a\<lparr>Author.ID := v\<rparr>) | _ \<Rightarrow> i)
      | DocumentInfo_ID \<Rightarrow>
          (case i of NDocumentInfo d \<Rightarrow> NDocumentInfo (d\<lparr>DocumentInfo.ID := v\<rparr>) | _ \<Rightarrow> i)
      | PublishInfo_Year \<Rightarrow>
          (case i of NPublishInfo p \<Rightarrow> NPublishInfo (p\<lparr>PublishInfo.Year := v\<rparr>) | _ \<Rightarrow> i)
      | TitleInfo_Lang \<Rightarrow>
          (case i of NTitleInfo t \<Rightarrow> NTitleInfo (t\<lparr>TitleInfo.Lang := v\<rparr>) | _ \<Rightarrow> i)
      | TitleInfo_SrcLang \<Rightarrow>
          (case i of NTitleInfo t \<Rightarrow> NTitleInfo (t\<lparr>TitleInfo.SrcLang := v\<rparr>) | _ \<Rightarrow> i))"

definition append_string :: "strings_field \<Rightarrow> string \<Rightarrow> impl \<Rightarrow> impl" where
  "append_string f v i =
     (case f of
        Author_HomePages \<Rightarrow>
          (case i of NAuthor a \<Rightarrow> NAuthor (a\<lparr>Author.HomePages := Author.HomePages a @ [v]\<rparr>) | _ \<Rightarrow> i)
      | Author_Emails \<Rightarrow>
          (case i of NAuthor a \<Rightarrow> NAuthor (a\<lparr>Author.Emails := Author.Emails a @ [v]\<rparr>) | _ \<Rightarrow> i)
      | DocumentInfo_SrcURLs \<Rightarrow>
          (case i of
             NDocumentInfo d \<Rightarrow> NDocumentInfo (d\<lparr>DocumentInfo.SrcURLs := DocumentInfo.SrcURLs d @ [v]\<rparr>)
           | _ \<Rightarrow> i))"

definition store_float :: "float_field \<Rightarrow> float64 \<Rightarrow> impl \<Rightarrow> impl" where
  "store_float f v i =
     (case f of
        DocumentInfo_Version \<Rightarrow>
          (case i of NDocumentInfo d \<Rightarrow> NDocumentInfo (d\<lparr>DocumentInfo.Version := v\<rparr>) | _ \<Rightarrow> i))"

definition stringNode_charDataCallback :: "addr \<Rightarrow> string_field \<Rightarrow> string \<Rightarrow> heap \<Rightarrow> error option \<times> heap" where
  "stringNode_charDataCallback owner f cd h =
     (None, upd owner (\<lambda>n. n\<lparr>impl := store_string f cd (impl n)\<rparr>) h)"

definition floatNode_charDataCallback :: "stdlib \<Rightarrow> addr \<Rightarrow> float_field \<Rightarrow> string \<Rightarrow> heap \<Rightarrow> error option \<times> heap" where
  "floatNode_charDataCallback lib owner f cd h =
     (case ParseFloat lib cd of
        (fl, err) \<Rightarrow> (err, upd owner (\<lambda>n. n\<lparr>impl := store_float f fl (impl n)\<rparr>) h))"

definition stringArrayNode_charDataCallback :: "addr \<Rightarrow> strings_field \<Rightarrow> string \<Rightarrow> heap \<Rightarrow> error option \<times> heap" where
  "stringArrayNode_charDataCallback owner f cd h =
     (None, upd owner (\<lambda>n. n\<lparr>impl := append_string f cd (impl n)\<rparr>) h)"


subsection \<open>Dynamic dispatch\<close>

text \<open>
  A call through the \<^verbatim>\<open>Node\<close> interface runs the method of the concrete type in the cell; a
  type that does not declare the method gets the one promoted from the struct it embeds.
\<close>

definition tagCallback :: "addr \<Rightarrow> StartElement \<Rightarrow> heap \<Rightarrow> (error + addr) \<times> heap" where
  "tagCallback a start h =
     (case impl (cells h a) of
        NTitle x \<Rightarrow> Title_tagCallback a start h
      | NImage x \<Rightarrow> baseNode_tagCallback start h
      | NP x \<Rightarrow> StyleType_tagCallback a start h
      | NCite x \<Rightarrow> Cite_tagCallback a x start h
      | NPoem x \<Rightarrow> Poem_tagCallback a x start h
      | NStanza x \<Rightarrow> Stanza_tagCallback a x start h
      | NEpigraph x \<Rightarrow> Epigraph_tagCallback a x start h
      | NAnnotation x \<Rightarrow> Annotation_tagCallback a start h
      | NSection x \<Rightarrow> Section_tagCallback a x start h
      | NStyleType x \<Rightarrow> StyleType_tagCallback a start h
      | NNamedStyleType x \<Rightarrow> StyleType_tagCallback a start h
      | NLink x \<Rightarrow> StyleLinkType_tagCallback a start h
      | NStyleLinkType \<Rightarrow> StyleLinkType_tagCallback a start h
      | NTable x \<Rightarrow> Table_tagCallback a x start h
      | NTR x \<Rightarrow> TR_tagCallback a start h
      | NTD x \<Rightarrow> StyleType_tagCallback a start h
      | NInlineImage x \<Rightarrow> baseNode_tagCallback start h
      | NEmptyLine \<Rightarrow> baseNode_tagCallback start h
      | NBody x \<Rightarrow> Body_tagCallback a x NBody start h
      | NNotesBody x \<Rightarrow>
          Body_tagCallback a (NotesBody.Body x) (\<lambda>b. NNotesBody (x\<lparr>NotesBody.Body := b\<rparr>)) start h
      | NFictionBook x \<Rightarrow> FictionBook_tagCallback a x start h
      | NStylesheet x \<Rightarrow> baseNode_tagCallback start h
      | NDescription x \<Rightarrow> Description_tagCallback a x start h
      | NDocumentInfo x \<Rightarrow> DocumentInfo_tagCallback a x start h
      | NPublishInfo x \<Rightarrow> PublishInfo_tagCallback a x start h
      | NCustomInfo x \<Rightarrow> baseNode_tagCallback start h
      | NBinary x \<Rightarrow> baseNode_tagCallback start h
      | NAuthor x \<Rightarrow> Author_tagCallback a x start h
      | NTextField x \<Rightarrow> baseNode_tagCallback start h
      | NDate x \<Rightarrow> baseNode_tagCallback start h
      | NSequence x \<Rightarrow> Sequence_tagCallback a x start h
      | NTitleInfo x \<Rightarrow> TitleInfo_tagCallback a x start h
      | NGenre x \<Rightarrow> baseNode_tagCallback start h
      | NCoverpage x \<Rightarrow> Coverpage_tagCallback a x start h
      | NShareInstruction x \<Rightarrow> ShareInstruction_tagCallback a x start h
      | NPartShareInstruction x \<Rightarrow> baseNode_tagCallback start h
      | NOutPutDocument x \<Rightarrow> OutPutDocument_tagCallback a x start h
      | NstringNode owner f \<Rightarrow> baseNode_tagCallback start h
      | NfloatNode owner f \<Rightarrow> baseNode_tagCallback start h
      | NstringArrayNode owner f \<Rightarrow> baseNode_tagCallback start h)"

definition own :: "('r \<Rightarrow> impl) \<Rightarrow> addr \<Rightarrow> error option \<times> 'r \<Rightarrow> heap \<Rightarrow> error option \<times> heap" where
  \<comment> \<open>the receiver's struct, as the callback left it, goes back into its cell\<close>
  "own wrap a r h = (case r of (err, x) \<Rightarrow> (err, set_impl a (wrap x) h))"

definition attrCallback :: "stdlib \<Rightarrow> addr \<Rightarrow> Attr \<Rightarrow> heap \<Rightarrow> error option \<times> heap" where
  "attrCallback lib a attr h =
     (case impl (cells h a) of
        NTitle x \<Rightarrow> own NTitle a (Title_attrCallback attr x) h
      | NImage x \<Rightarrow> (baseNode_attrCallback attr, h)
      | NP x \<Rightarrow> own NP a (P_attrCallback attr x) h
      | NCite x \<Rightarrow> own NCite a (Cite_attrCallback attr x) h
      | NPoem x \<Rightarrow> (baseNode_attrCallback attr, h)
      | NStanza x \<Rightarrow> own NStanza a (Stanza_attrCallback attr x) h
      | NEpigraph x \<Rightarrow> own NEpigraph a (Epigraph_attrCallback attr x) h
      | NAnnotation x \<Rightarrow> own NAnnotation a (Annotation_attrCallback attr x) h
      | NSection x \<Rightarrow> own NSection a (Section_attrCallback attr x) h
      | NStyleType x \<Rightarrow> own NStyleType a (StyleType_attrCallback attr x) h
      | NNamedStyleType x \<Rightarrow> own NNamedStyleType a (NamedStyleType_attrCallback attr x) h
      | NLink x \<Rightarrow> own NLink a (Link_attrCallback attr x) h
      | NStyleLinkType \<Rightarrow> (baseNode_attrCallback attr, h)
      | NTable x \<Rightarrow> own NTable a (Table_attrCallback attr x) h
      | NTR x \<Rightarrow> own NTR a (TR_attrCallback attr x) h
      | NTD x \<Rightarrow> own NTD a (TD_attrCallback lib attr x) h
      | NInlineImage x \<Rightarrow> own NInlineImage a (InlineImage_attrCallback attr x) h
      | NEmptyLine \<Rightarrow> (baseNode_attrCallback attr, h)
      | NBody x \<Rightarrow> own NBody a (Body_attrCallback attr x) h
      | NNotesBody x \<Rightarrow> own NNotesBody a (NotesBody_attrCallback attr x) h
      | NFictionBook x \<Rightarrow> own NFictionBook a (FictionBook_attrCallback attr x) h
      | NStylesheet x \<Rightarrow> own NStylesheet a (Stylesheet_attrCallback attr x) h
      | NDescription x \<Rightarrow> (baseNode_attrCallback attr, h)
      | NDocumentInfo x \<Rightarrow> (baseNode_attrCallback attr, h)
      | NPublishInfo x \<Rightarrow> (baseNode_attrCallback attr, h)
      | NCustomInfo x \<Rightarrow> own NCustomInfo a (CustomInfo_attrCallback attr x) h
      | NBinary x \<Rightarrow> own NBinary a (Binary_attrCallback attr x) h
      | NAuthor x \<Rightarrow> (baseNode_attrCallback attr, h)
      | NTextField x \<Rightarrow> own NTextField a (TextField_attrCallback attr x) h
      | NDate x \<Rightarrow> own NDate a (Date_attrCallback lib attr x) h
      | NSequence x \<Rightarrow> own NSequence a (Sequence_attrCallback lib attr x) h
      | NTitleInfo x \<Rightarrow> (baseNode_attrCallback attr, h)
      | NGenre x \<Rightarrow> own NGenre a (Genre_attrCallback lib attr x) h
      | NCoverpage x \<Rightarrow> (baseNode_attrCallback attr, h)
      | NShareInstruction x \<Rightarrow> own NShareInstruction a (ShareInstruction_attrCallback lib attr x) h
      | NPartShareInstruction x \<Rightarrow>
          own NPartShareInstruction a (PartShareInstruction_attrCallback attr x) h
      | NOutPutDocument x \<Rightarrow> own NOutPutDocument a (OutPutDocument_attrCallback lib attr x) h
      | NstringNode owner f \<Rightarrow> (baseNode_attrCallback attr, h)
      | NfloatNode owner f \<Rightarrow> (baseNode_attrCallback attr, h)
      | NstringArrayNode owner f \<Rightarrow> (baseNode_attrCallback attr, h))"

definition charDataCallback :: "stdlib \<Rightarrow> addr \<Rightarrow> string \<Rightarrow> heap \<Rightarrow> error option \<times> heap" where
  "charDataCallback lib a cd h =
     (case impl (cells h a) of
        NP x \<Rightarrow> mixed_charDataCallback a cd h
      | NStyleType x \<Rightarrow> mixed_charDataCallback a cd h
      | NNamedStyleType x \<Rightarrow> mixed_charDataCallback a cd h
      | NLink x \<Rightarrow> mixed_charDataCallback a cd h
      | NStyleLinkType \<Rightarrow> mixed_charDataCallback a cd h
      | NTD x \<Rightarrow> mixed_charDataCallback a cd h
      | NStylesheet x \<Rightarrow> own NStylesheet a (Stylesheet_charDataCallback cd x) h
      | NCustomInfo x \<Rightarrow>
          own (\<lambda>t. NCustomInfo (x\<lparr>CustomInfo.TextField := t\<rparr>)) a
            (TextField_charDataCallback cd (CustomInfo.TextField x)) h
      | NBinary x \<Rightarrow> own NBinary a (Binary_charDataCallback lib cd x) h
      | NTextField x \<Rightarrow> own NTextField a (TextField_charDataCallback cd x) h
      | NDate x \<Rightarrow> own NDate a (Date_charDataCallback cd x) h
      | NGenre x \<Rightarrow> own NGenre a (Genre_charDataCallback cd x) h
      | NstringNode owner f \<Rightarrow> stringNode_charDataCallback owner f cd h
      | NfloatNode owner f \<Rightarrow> floatNode_charDataCallback lib owner f cd h
      | NstringArrayNode owner f \<Rightarrow> stringArrayNode_charDataCallback owner f cd h
      | _ \<Rightarrow> (None, h))"

subsection \<open>The read interface\<close>

text \<open>
  \<^verbatim>\<open>GetContent\<close> of a \<^verbatim>\<open>Contenter\<close>: the content list of a type with \<^verbatim>\<open>contentBase\<close>, the lines
  of a stanza, the rows of a table, and nothing for text, images and empty lines.
\<close>

definition GetContent :: "heap \<Rightarrow> Contenter \<Rightarrow> Contenter list" where
  "GetContent h c =
     (case c of
        CharData t \<Rightarrow> []
      | Ref a \<Rightarrow>
          (case impl (cells h a) of
             NStanza s \<Rightarrow> map Ref (Stanza.V s)
           | NTable t \<Rightarrow> map Ref (Table.TR t)
           | NImage i \<Rightarrow> []
           | NInlineImage i \<Rightarrow> []
           | NEmptyLine \<Rightarrow> []
           | _ \<Rightarrow> Content (cells h a)))"

definition GetText :: "heap \<Rightarrow> Contenter \<Rightarrow> string" where
  "GetText h c = (case c of CharData t \<Rightarrow> t | Ref a \<Rightarrow> [])"

section \<open>The parser\<close>

record Parser =
  stack :: "addr list"
  last' :: "addr option"
  first :: "addr option"

definition NewParser :: "addr option \<Rightarrow> Parser" where
  "NewParser n = \<lparr>stack = [], last' = None, first = n\<rparr>"

text \<open>The attribute loop of \<^verbatim>\<open>ParseToken\<close>: it returns at the first error.\<close>

fun attr_loop :: "stdlib \<Rightarrow> addr \<Rightarrow> Attr list \<Rightarrow> heap \<Rightarrow> error option \<times> heap" where
  "attr_loop lib l [] h = (None, h)"
| "attr_loop lib l (attr # rest) h =
     (case attrCallback lib l attr h of
        (Some err, h1) \<Rightarrow> (Some err, h1)
      | (None, h1) \<Rightarrow> attr_loop lib l rest h1)"

text \<open>
  \<^verbatim>\<open>ParseToken\<close> returns an error value (\<open>None\<close> for \<^verbatim>\<open>nil\<close>) and leaves the parser and the
  store changed, or it panics: a method call on the \<^verbatim>\<open>nil\<close> interface value in \<^verbatim>\<open>p.last\<close>
  is a nil dereference.
\<close>

datatype outcome = Panic | Return "error option" Parser heap

definition ParseToken :: "stdlib \<Rightarrow> Token \<Rightarrow> Parser \<Rightarrow> heap \<Rightarrow> outcome" where
  "ParseToken lib token p h =
     (case token of
        xml_StartElement e \<Rightarrow>
          (case (case last' p of
                   Some l \<Rightarrow>
                     (case tagCallback l e h of
                        (Inl err, h1) \<Rightarrow> Inl (err, h1)
                      | (Inr nt, h1) \<Rightarrow> Inr (p\<lparr>stack := stack p @ [l], last' := Some nt\<rparr>, h1))
                 | None \<Rightarrow> Inr (p\<lparr>last' := first p\<rparr>, h)) of
             Inl (err, h1) \<Rightarrow> Return (Some err) p h1
           | Inr (p1, h1) \<Rightarrow>
               (case last' p1 of
                  None \<Rightarrow> Panic
                | Some l1 \<Rightarrow>
                    (case attr_loop lib l1 (StartElement.Attr e) (SetXMLName l1 (StartElement.Name e) h1) of
                       (err, h2) \<Rightarrow> Return err p1 h2)))
      | xml_EndElement name \<Rightarrow>
          (case last' p of
             None \<Rightarrow> Panic
           | Some l \<Rightarrow>
               if GetXMLName l h \<noteq> name then Return (Some (unexpected_close_tag name)) p h
               else if length (stack p) > 0 then
                 Return None (p\<lparr>last' := Some (last (stack p)), stack := butlast (stack p)\<rparr>) h
               else Return None (p\<lparr>last' := None\<rparr>) h)
      | xml_CharData cd \<Rightarrow>
          (case last' p of
             Some l \<Rightarrow> (case charDataCallback lib l cd h of (err, h1) \<Rightarrow> Return err p h1)
           | None \<Rightarrow> Return None p h)
      | _ \<Rightarrow> Return None p h)"

text \<open>
  \<^verbatim>\<open>Parse\<close> reads the decoder until \<^verbatim>\<open>d.Token()\<close> fails. The decoder is the list of tokens it
  yields and the error that ends them (\<open>None\<close> is \<^verbatim>\<open>io.EOF\<close>). The value that \<^verbatim>\<open>ParseToken\<close>
  returns is dropped for the start element and assigned to a variable that is never read
  in the loop; \<^verbatim>\<open>parseErr\<close> only ever gets the decoder's error.
\<close>

fun Parse_loop :: "stdlib \<Rightarrow> Token list \<Rightarrow> Parser \<Rightarrow> heap \<Rightarrow> (Parser \<times> heap) option" where
  "Parse_loop lib [] p h = Some (p, h)"
| "Parse_loop lib (token # rest) p h =
     (case ParseToken lib token p h of
        Panic \<Rightarrow> None
      | Return err p1 h1 \<Rightarrow> Parse_loop lib rest p1 h1)"

definition Parse :: "stdlib \<Rightarrow> Token list \<Rightarrow> error option \<Rightarrow> StartElement \<Rightarrow> Parser \<Rightarrow> heap \<Rightarrow> outcome" where
  "Parse lib tokens final start p h =
     (case ParseToken lib (xml_StartElement start) p h of
        Panic \<Rightarrow> Panic
      | Return err0 p0 h0 \<Rightarrow>
          (case Parse_loop lib tokens p0 h0 of
             None \<Rightarrow> Panic
           | Some (p1, h1) \<Rightarrow>
               (let parseErr = (case final of None \<Rightarrow> [] | Some err \<Rightarrow> [err]) in
                if parseErr \<noteq> [] then
                  Return (Some (error_while_parsing (Local (StartElement.Name start)) parseErr)) p1 h1
                else Return None p1 h1)))"

text \<open>
  \<^verbatim>\<open>UnmarshalXML\<close> of any node type: \<^verbatim>\<open>NewParser(n).Parse(d, start)\<close> on the receiver.
\<close>

definition UnmarshalXML :: "stdlib \<Rightarrow> addr \<Rightarrow> Token list \<Rightarrow> error option \<Rightarrow> StartElement \<Rightarrow> heap \<Rightarrow> outcome" where
  "UnmarshalXML lib n tokens final start h = Parse lib tokens final start (NewParser (Some n)) h"


section \<open>Documents and what is read back\<close>

text \<open>
  A document fragment as the tokenizer sees it: text, an element with a name, attributes
  and children, or one of the three kinds of token that \<^verbatim>\<open>ParseToken\<close> passes over (comment,
  processing instruction, directive). \<open>tokens_of\<close> is its token sequence in document order:
  the decoder yields open and close tags matched and nested.
\<close>

datatype xml =
    Text string
  | Elem Name "Attr list" "xml list"
  | Comment string
  | ProcInst string string
  | Directive string

fun tokens_of :: "xml \<Rightarrow> Token list" where
  "tokens_of (Text s) = [xml_CharData s]"
| "tokens_of (Elem n attrs ts) =
     xml_StartElement \<lparr>StartElement.Name = n, Attr = attrs\<rparr> # concat (map tokens_of ts)
       @ [xml_EndElement n]"
| "tokens_of (Comment s) = [xml_Comment s]"
| "tokens_of (ProcInst t s) = [xml_ProcInst t s]"
| "tokens_of (Directive s) = [xml_Directive s]"


definition tokens_list :: "xml list \<Rightarrow> Token list" where
  "tokens_list ts = concat (map tokens_of ts)"

text \<open>
  The inline and table vocabulary, by position. The kind of position is the kind of the
  node the tokens are dispatched to:
  \<^item> \<open>Mixed\<close>, the inside of a node with \<^verbatim>\<open>StyleType.tagCallback\<close> (\<^verbatim>\<open>StyleType\<close>, \<^verbatim>\<open>P\<close>,
    \<^verbatim>\<open>NamedStyleType\<close>, \<^verbatim>\<open>TD\<close>): \<^verbatim>\<open>style\<close>, \<^verbatim>\<open>a\<close>, \<^verbatim>\<open>image\<close> and the six style tags are legal;
  \<^item> \<open>InLink\<close>, the inside of a node with \<^verbatim>\<open>StyleLinkType.tagCallback\<close> (\<^verbatim>\<open>Link\<close>,
    \<^verbatim>\<open>StyleLinkType\<close>): \<^verbatim>\<open>image\<close>, \<^verbatim>\<open>style\<close> and the six style tags are legal;
  \<^item> \<open>Leaf\<close>, the inside of an \<^verbatim>\<open>InlineImage\<close>: no tag is legal;
  \<^item> \<open>Row\<close>, the inside of a \<^verbatim>\<open>TR\<close>: the cells \<^verbatim>\<open>th\<close> and \<^verbatim>\<open>td\<close> are legal;
  \<^item> \<open>Rows\<close>, the inside of a \<^verbatim>\<open>Table\<close>: \<^verbatim>\<open>tr\<close> is legal.

  \<open>child_ctx c tag\<close> is the kind of position inside a legal \<open>tag\<close>, and \<open>None\<close> for any other
  tag. Text is kept by the nodes with \<^verbatim>\<open>mixed.charDataCallback\<close>, which are those of the first
  two kinds. Any attributes are allowed everywhere: an attribute that a node rejects is an
  error of its open tag and changes no content.
\<close>

datatype ctx = Mixed | InLink | Leaf | Row | Rows

definition ctx_of :: "impl \<Rightarrow> ctx option" where
  "ctx_of i =
     (case i of
        NStyleType x \<Rightarrow> Some Mixed
      | NP x \<Rightarrow> Some Mixed
      | NNamedStyleType x \<Rightarrow> Some Mixed
      | NTD x \<Rightarrow> Some Mixed
      | NLink x \<Rightarrow> Some InLink
      | NStyleLinkType \<Rightarrow> Some InLink
      | NInlineImage x \<Rightarrow> Some Leaf
      | NTR x \<Rightarrow> Some Row
      | NTable x \<Rightarrow> Some Rows
      | _ \<Rightarrow> None)"

definition child_ctx :: "ctx \<Rightarrow> string \<Rightarrow> ctx option" where
  "child_ctx c tag =
     (case c of
        Mixed \<Rightarrow>
          if tag = ''style'' then Some Mixed
          else if tag = ''a'' then Some InLink
          else if tag = ''image'' then Some Leaf
          else if tag \<in> {''strong'', ''emphasis'', ''strikethrough'', ''sub'', ''sup'', ''code''}
          then Some Mixed else None
      | InLink \<Rightarrow>
          if tag = ''image'' then Some Leaf
          else if tag \<in> {''style'', ''strong'', ''emphasis'', ''strikethrough'', ''sub'', ''sup'', ''code''}
          then Some InLink else None
      | Leaf \<Rightarrow> None
      | Row \<Rightarrow> if tag \<in> {''th'', ''td''} then Some Mixed else None
      | Rows \<Rightarrow> if tag = ''tr'' then Some Row else None)"

definition keeps_text :: "ctx \<Rightarrow> bool" where
  "keeps_text c = (c = Mixed \<or> c = InLink)"

text \<open>\<open>in_vocab c t\<close>: the tree \<open>t\<close> is text or a legal element of legal content, all the way down.\<close>

fun in_vocab :: "ctx \<Rightarrow> xml \<Rightarrow> bool" where
  "in_vocab c (Text s) = keeps_text c"
| "in_vocab c (Elem n attrs ts) =
     (case child_ctx c (Local n) of
        None \<Rightarrow> False
      | Some c' \<Rightarrow> list_all (in_vocab c') ts)"
| "in_vocab c _ = False"

text \<open>
  Outside the vocabulary, \<open>no_early_close nm c t\<close> asks two things of the tree \<open>t\<close>, dispatched
  to a node of kind \<open>c\<close> whose recorded name is \<open>nm\<close>: no element that is not legal where it
  stands bears the name of the node it is dispatched to (its close tag would be taken for
  that node's), and no \<^verbatim>\<open>id\<close> element is dispatched to a table (\<^verbatim>\<open>Table.tagCallback\<close> takes it
  for a field of the table, not for content). The tokens inside an element that is not legal
  are dispatched to the same node as the element itself.
\<close>

fun no_early_close :: "Name \<Rightarrow> ctx \<Rightarrow> xml \<Rightarrow> bool" where
  "no_early_close nm c (Elem n attrs ts) =
     (case child_ctx c (Local n) of
        Some c' \<Rightarrow> list_all (no_early_close n c') ts
      | None \<Rightarrow> n \<noteq> nm \<and> \<not> (c = Rows \<and> Local n = ''id'') \<and> list_all (no_early_close nm c) ts)"
| "no_early_close nm c _ = True"

text \<open>
  \<open>placed c t\<close>: what the tree \<open>t\<close> contributes, in document order, to the content of a node
  of kind \<open>c\<close>. Text is one entry where text is kept and nothing elsewhere; a legal element is
  one entry, whose own content is what its children contribute to it; an element that is
  not legal is no entry itself, and its children contribute to the same node in its place;
  comments, processing instructions and directives contribute nothing.
\<close>

fun placed :: "ctx \<Rightarrow> xml \<Rightarrow> xml list" where
  "placed c (Text s) = (if keeps_text c then [Text s] else [])"
| "placed c (Elem n attrs ts) =
     (case child_ctx c (Local n) of
        Some c' \<Rightarrow> [Elem n attrs (concat (map (placed c') ts))]
      | None \<Rightarrow> concat (map (placed c) ts))"
| "placed c _ = []"

definition placed_all :: "ctx \<Rightarrow> xml list \<Rightarrow> xml list" where
  "placed_all c ts = concat (map (placed c) ts)"

text \<open>
  \<open>reads_as h c t\<close>: the entry \<open>c\<close> of a content list, read through the interface the package
  exports (\<^verbatim>\<open>GetXMLName\<close>, \<^verbatim>\<open>GetText\<close>, \<^verbatim>\<open>GetContent\<close>), is the tree \<open>t\<close>: a text entry with the same
  text, or an element with the same name whose \<^verbatim>\<open>GetContent()\<close> reads, entry by entry and
  in order, as the children of \<open>t\<close>. The attributes of \<open>t\<close> are not compared. \<open>read_as h cs ts\<close>
  is the same for a content list: as many entries as trees, each entry reading as its tree.
\<close>

fun reads_as :: "heap \<Rightarrow> Contenter \<Rightarrow> xml \<Rightarrow> bool"
  and read_as :: "heap \<Rightarrow> Contenter list \<Rightarrow> xml list \<Rightarrow> bool" where
  "reads_as h c (Text s) = (case c of CharData t \<Rightarrow> GetText h c = s | Ref a \<Rightarrow> False)"
| "reads_as h c (Elem n attrs ts) =
     (case c of
        CharData t \<Rightarrow> False
      | Ref a \<Rightarrow> GetXMLName a h = n \<and> read_as h (GetContent h c) ts)"
| "reads_as h c (Comment s) = False"
| "reads_as h c (ProcInst t s) = False"
| "reads_as h c (Directive s) = False"
| "read_as h [] [] = True"
| "read_as h (c # cs) (t # ts) = (reads_as h c t \<and> read_as h cs ts)"
| "read_as h [] (t # ts) = False"
| "read_as h (c # cs) [] = False"

text \<open>The same, with every node of the tree at an address from \<open>lo\<close> up to, not including, \<open>hi\<close>.\<close>

fun reads_in :: "addr \<Rightarrow> addr \<Rightarrow> heap \<Rightarrow> Contenter \<Rightarrow> xml \<Rightarrow> bool"
  and read_in :: "addr \<Rightarrow> addr \<Rightarrow> heap \<Rightarrow> Contenter list \<Rightarrow> xml list \<Rightarrow> bool" where
  "reads_in lo hi h c (Text s) = (case c of CharData t \<Rightarrow> GetText h c = s | Ref a \<Rightarrow> False)"
| "reads_in lo hi h c (Elem n attrs ts) =
     (case c of
        CharData t \<Rightarrow> False
      | Ref a \<Rightarrow> lo \<le> a \<and> a < hi \<and> GetXMLName a h = n \<and> read_in lo hi h (GetContent h c) ts)"
| "reads_in lo hi h c (Comment s) = False"
| "reads_in lo hi h c (ProcInst t s) = False"
| "reads_in lo hi h c (Directive s) = False"
| "read_in lo hi h [] [] = True"
| "read_in lo hi h (c # cs) (t # ts) = (reads_in lo hi h c t \<and> read_in lo hi h cs ts)"
| "read_in lo hi h [] (t # ts) = False"
| "read_in lo hi h (c # cs) [] = False"

section \<open>Fixtures of the examples\<close>

definition plain :: "string \<Rightarrow> Name" where
  "plain s = \<lparr>Space = '''', Local = s\<rparr>"

definition xlink :: "string \<Rightarrow> Name" where
  "xlink s = \<lparr>Space = ''http://www.w3.org/1999/xlink'', Local = s\<rparr>"

definition tag :: "string \<Rightarrow> (string \<times> string) list \<Rightarrow> StartElement" where
  "tag s kvs =
     \<lparr>StartElement.Name = plain s, Attr = map (\<lambda>(k, v). \<lparr>Attr.Name = plain k, Value = v\<rparr>) kvs\<rparr>"

text \<open>
  The results of the standard library on the strings of the examples: \<^verbatim>\<open>"12"\<close> is a number,
  \<^verbatim>\<open>"2020-02-29"\<close> is a date, \<^verbatim>\<open>"QUJD"\<close> is the base64 of \<^verbatim>\<open>"ABC"\<close>, and in \<^verbatim>\<open>"QUJD!"\<close> the decoder has
  written these three bytes when it meets the illegal byte. On any other string this
  instance reports an error.
\<close>

definition example_lib :: stdlib where
  "example_lib =
     \<lparr>Atoi = (\<lambda>s. if s = ''12'' then (12, None) else (0, Some (lib_error ''invalid syntax''))),
      ParseFloat = (\<lambda>s. (0, Some (lib_error ''invalid syntax''))),
      time_Parse = (\<lambda>s. if s = ''2020-02-29'' then (1582934400, None)
                         else (0, Some (lib_error ''cannot parse''))),
      base64_Decode = (\<lambda>s. if s = ''QUJD'' then (''ABC'', None)
                            else if s = ''QUJD!'' then (''ABC'', Some (lib_error ''illegal base64 data at input byte 4''))
                            else ('''', Some (lib_error ''illegal base64 data'')))\<rparr>"

text \<open>
  \<open>grows r h h' es\<close>: from store \<open>h\<close> to store \<open>h'\<close> the node \<open>r\<close> has gained the entries \<open>es\<close> at
  the end of what \<^verbatim>\<open>GetContent\<close> returns for it and kept its name and its kind of position;
  no other cell that was allocated in \<open>h\<close> has changed.
\<close>

definition grows :: "addr \<Rightarrow> heap \<Rightarrow> heap \<Rightarrow> Contenter list \<Rightarrow> bool" where
  "grows r h h' es =
     (nxt h \<le> nxt h'
      \<and> (\<forall>b. b < nxt h \<and> b \<noteq> r \<longrightarrow> cells h' b = cells h b)
      \<and> GetContent h' (Ref r) = GetContent h (Ref r) @ es
      \<and> XMLName (cells h' r) = XMLName (cells h r)
      \<and> ctx_of (impl (cells h' r)) = ctx_of (impl (cells h r)))"

text \<open>
  \<open>parses lib t\<close>: wherever the tokens of the tree \<open>t\<close> are dispatched to a current node \<open>r\<close> of
  one of the five kinds, the node gains, at the end of its content, entries that read as
  what \<open>t\<close> contributes to it, and the parser is left where it was.
\<close>

definition parses :: "stdlib \<Rightarrow> xml \<Rightarrow> bool" where
  "parses lib t =
     (\<forall>c h r p. no_early_close (XMLName (cells h r)) c t \<and> ctx_of (impl (cells h r)) = Some c
          \<and> r < nxt h \<and> last' p = Some r
        \<longrightarrow> (\<exists>h' es. Parse_loop lib (tokens_of t) p h = Some (p, h') \<and> grows r h h' es
               \<and> read_in (nxt h) (nxt h') h' es (placed c t)))"

lemmas zero_defs =
  zero_Title_def zero_Image_def zero_StyleType_def zero_P_def zero_Cite_def zero_Poem_def
  zero_Stanza_def zero_Epigraph_def zero_Annotation_def zero_Section_def
  zero_NamedStyleType_def zero_Link_def zero_Table_def zero_TR_def zero_TD_def
  zero_InlineImage_def zero_Body_def zero_NotesBody_def zero_FictionBook_def
  zero_Stylesheet_def zero_Description_def zero_DocumentInfo_def zero_PublishInfo_def
  zero_TextField_def zero_CustomInfo_def zero_Binary_def zero_Author_def zero_Date_def
  zero_Sequence_def zero_TitleInfo_def zero_Genre_def zero_Coverpage_def
  zero_ShareInstruction_def zero_PartShareInstruction_def zero_OutPutDocument_def


section \<open>Basic facts\<close>

lemma cells_upd [simp]: "cells (upd a f h) b = (if b = a then f (cells h a) else cells h b)"
  by (simp add: upd_def)

lemma nxt_upd [simp]: "nxt (upd a f h) = nxt h"
  by (simp add: upd_def)

lemma cells_new [simp]:
  "cells (snd (new i h)) b =
     (if b = nxt h then \<lparr>XMLName = \<lparr>Space = [], Local = []\<rparr>, Content = [], impl = i\<rparr> else cells h b)"
  by (simp add: new_def)

lemma nxt_new [simp]: "nxt (snd (new i h)) = Suc (nxt h)"
  by (simp add: new_def)

lemma fst_new [simp]: "fst (new i h) = nxt h"
  by (simp add: new_def)

lemma nxt_empty_heap [simp]: "nxt empty_heap = 0"
  by (simp add: empty_heap_def)

lemma attach_eq: "attach i link h = (Inr (nxt h), link (nxt h) (snd (new i h)))"
  by (simp add: attach_def split: prod.splits) (metis fst_new snd_conv fst_conv)

subsection \<open>One token\<close>

lemma ParseToken_start_error:
  assumes "last' p = Some l" and "tagCallback l e h = (Inl err, h1)"
  shows "ParseToken lib (xml_StartElement e) p h = Return (Some err) p h1"
  using assms by (simp add: ParseToken_def)

lemma ParseToken_start_child:
  assumes "last' p = Some l" and "tagCallback l e h = (Inr nt, h1)"
    and "attr_loop lib nt (StartElement.Attr e) (SetXMLName nt (StartElement.Name e) h1) = (err, h2)"
  shows "ParseToken lib (xml_StartElement e) p h =
           Return err (p\<lparr>stack := stack p @ [l], last' := Some nt\<rparr>) h2"
  using assms by (simp add: ParseToken_def)

lemma ParseToken_end_mismatch:
  assumes "last' p = Some l" and "GetXMLName l h \<noteq> name"
  shows "ParseToken lib (xml_EndElement name) p h = Return (Some (unexpected_close_tag name)) p h"
  using assms by (simp add: ParseToken_def)

lemma ParseToken_end_pop:
  assumes "last' p = Some l" and "GetXMLName l h = name" and "stack p = st @ [l0]"
  shows "ParseToken lib (xml_EndElement name) p h = Return None (p\<lparr>last' := Some l0, stack := st\<rparr>) h"
  using assms by (simp add: ParseToken_def)

lemma ParseToken_chardata:
  assumes "last' p = Some l" and "charDataCallback lib l cd h = (err, h1)"
  shows "ParseToken lib (xml_CharData cd) p h = Return err p h1"
  using assms by (simp add: ParseToken_def)

lemma Parse_loop_append:
  "Parse_loop lib (xs @ ys) p h =
     (case Parse_loop lib xs p h of None \<Rightarrow> None | Some (p1, h1) \<Rightarrow> Parse_loop lib ys p1 h1)"
  by (induction xs arbitrary: p h) (auto split: outcome.splits)

lemmas run_defs =
  UnmarshalXML_def Parse_def ParseToken_def NewParser_def new_def empty_heap_def
  tagCallback_def attrCallback_def charDataCallback_def own_def attach_def appendContent_def
  upd_def set_impl_def SetXMLName_def GetXMLName_def GetContent_def GetText_def
  mixed_charDataCallback_def baseNode_tagCallback_def baseNode_attrCallback_def
  plain_def xlink_def tag_def example_lib_def




lemma attr_loop_stops:
  assumes "attr_loop lib l pre h = (None, h1)" and "attrCallback lib l attr h1 = (Some err, h2)"
  shows "attr_loop lib l (pre @ attr # post) h = (Some err, h2)"
  using assms by (induction pre arbitrary: h) (auto split: prod.splits option.splits)


section \<open>The driver\<close>

text \<open>
  A run against claim C1, on the tokens of the well-formed element
  \<^verbatim>\<open><p><foo></foo>later</p>\<close> parsed into a \<^verbatim>\<open>StyleType\<close>. The tag \<^verbatim>\<open>foo\<close> is unknown to the node, so
  no node is opened for it, and its close tag \<^verbatim>\<open></foo>\<close> arrives while the current node is the
  one recorded as \<^verbatim>\<open>p\<close>: \<^verbatim>\<open>ParseToken\<close> returns the "unexpected close tag" error. The error is
  not fatal: \<^verbatim>\<open>Parse\<close> goes on, the text after it is dispatched and lands in the root's content,
  the matching close tag pops the root, and the call returns \<^verbatim>\<open>nil\<close>.
\<close>

theorem close_tag_mismatch_counterexample:
  "ParseToken example_lib (xml_EndElement (plain ''foo''))
     \<lparr>stack = [], last' = Some 0, first = Some 0\<rparr>
     (SetXMLName 0 (plain ''p'') (snd (new (NStyleType zero_StyleType) empty_heap)))
   = Return (Some (unexpected_close_tag (plain ''foo'')))
       \<lparr>stack = [], last' = Some 0, first = Some 0\<rparr>
       (SetXMLName 0 (plain ''p'') (snd (new (NStyleType zero_StyleType) empty_heap)))
   \<and> UnmarshalXML example_lib 0
       [xml_StartElement (tag ''foo'' []), xml_EndElement (plain ''foo''),
        xml_CharData ''later'', xml_EndElement (plain ''p'')] None
       (tag ''p'' []) (snd (new (NStyleType zero_StyleType) empty_heap))
     = Return None \<lparr>stack = [], last' = None, first = Some 0\<rparr>
         \<lparr>cells = (cells empty_heap)
            (0 := \<lparr>XMLName = plain ''p'', Content = [CharData ''later''], impl = NStyleType zero_StyleType\<rparr>),
          nxt = 1\<rparr>"
  by (simp add: run_defs StyleType_tagCallback_def zero_defs)

text \<open>
  Claim C1, as amended. A close tag whose name differs from the recorded name of the
  current node makes \<^verbatim>\<open>ParseToken\<close> return an "unexpected close tag" error at once, with the
  stack, the current node and the store as they were. \<^verbatim>\<open>Parse\<close> does not stop there: its loop
  goes on with the tokens that follow, against the same current node.
\<close>

theorem close_tag_mismatch_not_fatal:
  assumes "last' p = Some l" and "GetXMLName l h \<noteq> name"
  shows "ParseToken lib (xml_EndElement name) p h = Return (Some (unexpected_close_tag name)) p h
       \<and> Parse_loop lib (xml_EndElement name # rest) p h = Parse_loop lib rest p h"
  using assms by (simp add: ParseToken_def)

theorem close_tag_mismatch_not_fatal_witness:
  "ParseToken example_lib (xml_EndElement (plain ''foo''))
     \<lparr>stack = [], last' = Some 0, first = Some 0\<rparr>
     (SetXMLName 0 (plain ''p'') (snd (new (NStyleType zero_StyleType) empty_heap)))
   = Return (Some (unexpected_close_tag (plain ''foo'')))
       \<lparr>stack = [], last' = Some 0, first = Some 0\<rparr>
       (SetXMLName 0 (plain ''p'') (snd (new (NStyleType zero_StyleType) empty_heap)))
   \<and> Parse_loop example_lib
       [xml_EndElement (plain ''foo''), xml_CharData ''later'', xml_EndElement (plain ''p'')]
       \<lparr>stack = [], last' = Some 0, first = Some 0\<rparr>
       (SetXMLName 0 (plain ''p'') (snd (new (NStyleType zero_StyleType) empty_heap)))
     = Parse_loop example_lib [xml_CharData ''later'', xml_EndElement (plain ''p'')]
         \<lparr>stack = [], last' = Some 0, first = Some 0\<rparr>
         (SetXMLName 0 (plain ''p'') (snd (new (NStyleType zero_StyleType) empty_heap)))"
proof -
  have differs: "GetXMLName 0 (SetXMLName 0 (plain ''p'') (snd (new (NStyleType zero_StyleType) empty_heap)))
      \<noteq> plain ''foo''"
    by (simp add: SetXMLName_def GetXMLName_def plain_def)
  have current: "last' \<lparr>stack = [], last' = Some 0, first = Some 0\<rparr> = Some 0"
    by simp
  from close_tag_mismatch_not_fatal [OF current differs]
  show ?thesis
    by blast
qed

text \<open>
  Claim C10. With no element open (\<^verbatim>\<open>p.last\<close> is \<^verbatim>\<open>nil\<close>: before the root's open tag, or after
  the root's own close tag has been processed), a close tag makes \<^verbatim>\<open>ParseToken\<close> call
  \<^verbatim>\<open>GetXMLName\<close> on the nil interface value: it panics, it does not return an error.
\<close>

theorem ParseToken_close_without_open_panics:
  assumes "last' p = None"
  shows "ParseToken lib (xml_EndElement name) p h = Panic"
  using assms by (simp add: ParseToken_def)

theorem ParseToken_close_without_open_panics_witness:
  "last' (NewParser (Some 0)) = None
   \<and> ParseToken example_lib (xml_EndElement (plain ''p'')) (NewParser (Some 0))
        (snd (new (NStyleType zero_StyleType) empty_heap)) = Panic"
  using ParseToken_close_without_open_panics
    [of "NewParser (Some 0)" example_lib "plain ''p''" "snd (new (NStyleType zero_StyleType) empty_heap)"]
  by (simp add: NewParser_def)

text \<open>
  The second way into that state: the root is opened and closed, and one more close tag
  arrives in the same call of \<^verbatim>\<open>Parse\<close>.
\<close>

lemma Parse_close_after_root_panics:
  "UnmarshalXML example_lib 0 [xml_EndElement (plain ''p''), xml_EndElement (plain ''p'')] None
     (tag ''p'' []) (snd (new (NStyleType zero_StyleType) empty_heap)) = Panic"
  by (simp add: run_defs zero_defs)





text \<open>
  The second run from the open tag of the paragraph on, and the same paragraph inside a
  section: there the text \<^verbatim>\<open>later\<close> is dispatched to the section, which keeps no text, and the
  last \<^verbatim>\<open></p>\<close> is one more close tag that does not match.
\<close>

lemma unknown_tag_named_as_parent_panics:
  "UnmarshalXML example_lib 0
     [xml_StartElement (tag ''p'' []), xml_CharData ''x'', xml_EndElement (plain ''p''),
      xml_CharData ''later'', xml_EndElement (plain ''p'')] None
     (tag ''p'' []) (snd (new (NP zero_P) empty_heap)) = Panic"
  by (simp add: run_defs StyleType_tagCallback_def zero_defs Let_def)

lemma unknown_tag_named_as_parent_in_section:
  "(case UnmarshalXML example_lib 0
      [xml_StartElement (tag ''p'' []),
         xml_StartElement (tag ''p'' []), xml_CharData ''x'', xml_EndElement (plain ''p''),
         xml_CharData ''later'',
       xml_EndElement (plain ''p''),
       xml_EndElement (plain ''section'')] None
      (tag ''section'' []) (snd (new (NSection zero_Section) empty_heap)) of
      Panic \<Rightarrow> False
    | Return err p h \<Rightarrow>
        err = None \<and> GetContent h (Ref 0) = [Ref 1] \<and> GetContent h (Ref 1) = [CharData ''x''])"
  by (simp add: run_defs Section_tagCallback_def StyleType_tagCallback_def zero_defs Let_def)

text \<open>
  Claim C3, at a failing input. A \<^verbatim>\<open>P\<close> is opened by \<^verbatim>\<open><p class="x" id="p1">\<close>. The attribute
  \<^verbatim>\<open>class\<close> is unknown to a paragraph; the loop over the attributes returns at that error, so
  \<^verbatim>\<open>id\<close> is never forwarded: the paragraph's \<^verbatim>\<open>ID\<close> is still empty at the end, and the call
  returns \<^verbatim>\<open>nil\<close>, the error being in no aggregate.
\<close>

theorem attr_error_drops_later_attributes:
  "UnmarshalXML example_lib 0 [xml_EndElement (plain ''p'')] None
     (tag ''p'' [(''class'', ''x''), (''id'', ''p1'')]) (snd (new (NP zero_P) empty_heap))
   = Return None \<lparr>stack = [], last' = None, first = Some 0\<rparr>
       \<lparr>cells = (cells empty_heap)
          (0 := \<lparr>XMLName = plain ''p'', Content = [], impl = NP (zero_P\<lparr>P.ID := ''''\<rparr>)\<rparr>),
        nxt = 1\<rparr>"
  by (simp add: run_defs P_attrCallback_def StyleType_attrCallback_def zero_defs)

section \<open>The document container\<close>

text \<open>
  Two runs against claim C5 on a \<^verbatim>\<open>FictionBook\<close>. After \<^verbatim>\<open><body></body>\<close> the main slot holds the
  body at address 1; a second \<^verbatim>\<open><body>\<close> without attributes is accepted with no error at all
  and replaces it by the body at address 2. And a body that carries the notes marker
  after another attribute is an error, with the notes slot still empty.
\<close>

theorem second_body_counterexample:
  "(case Parse_loop example_lib
      [xml_StartElement (tag ''FictionBook'' []), xml_StartElement (tag ''body'' []),
       xml_EndElement (plain ''body'')]
      (NewParser (Some 0)) (snd (new (NFictionBook zero_FictionBook) empty_heap)) of
      None \<Rightarrow> False
    | Some (p, h) \<Rightarrow>
        impl (cells h 0) = NFictionBook (zero_FictionBook\<lparr>FictionBook.Body := Some 1\<rparr>)
        \<and> (case ParseToken example_lib (xml_StartElement (tag ''body'' [])) p h of
             Panic \<Rightarrow> False
           | Return err p' h' \<Rightarrow>
               err = None
               \<and> impl (cells h' 0) = NFictionBook (zero_FictionBook\<lparr>FictionBook.Body := Some 2\<rparr>))
        \<and> (case ParseToken example_lib
                   (xml_StartElement (tag ''body'' [(''lang'', ''ru''), (''name'', ''notes'')])) p h of
             Panic \<Rightarrow> False
           | Return err p' h' \<Rightarrow>
               err = Some (Unknown_body_with_attr \<lparr>Attr.Name = plain ''lang'', Value = ''ru''\<rparr>)
               \<and> impl (cells h' 0) = NFictionBook (zero_FictionBook\<lparr>FictionBook.Body := Some 1\<rparr>)))"
  by (simp add: run_defs FictionBook_tagCallback_def Body_attrCallback_def zero_defs)

text \<open>
  Claim C5, as amended. For a \<^verbatim>\<open>body\<close> tag dispatched to a \<^verbatim>\<open>FictionBook\<close>: with no attributes, a
  fresh \<^verbatim>\<open>Body\<close> is bound to the main slot, whatever that slot held before; with a first
  attribute \<^verbatim>\<open>name="notes"\<close>, a fresh \<^verbatim>\<open>NotesBody\<close> is bound to the notes slot; with any other
  first attribute the callback returns an error and the document is unchanged.
\<close>

theorem FictionBook_body_binding:
  assumes "impl (cells h f) = NFictionBook this" and "f < nxt h"
    and "Local (StartElement.Name start) = ''body''"
    and "tagCallback f start h = (r, h')"
  shows "(case StartElement.Attr start of
            [] \<Rightarrow>
              r = Inr (nxt h) \<and> impl (cells h' (nxt h)) = NBody zero_Body
              \<and> impl (cells h' f) = NFictionBook (this\<lparr>FictionBook.Body := Some (nxt h)\<rparr>)
          | attr0 # rest \<Rightarrow>
              if Local (Attr.Name attr0) = ''name'' \<and> Attr.Value attr0 = ''notes'' then
                r = Inr (nxt h) \<and> impl (cells h' (nxt h)) = NNotesBody zero_NotesBody
                \<and> impl (cells h' f) = NFictionBook (this\<lparr>FictionBook.NotesBody := Some (nxt h)\<rparr>)
              else r = Inl (Unknown_body_with_attr attr0) \<and> h' = h)"
  using assms
  by (auto simp: tagCallback_def FictionBook_tagCallback_def attach_eq set_impl_def
        split: list.splits)

theorem FictionBook_body_binding_witness:
  "tagCallback 0 (tag ''body'' []) (snd (new (NFictionBook zero_FictionBook) empty_heap))
     = (Inr 1,
        set_impl 0 (NFictionBook (zero_FictionBook\<lparr>FictionBook.Body := Some 1\<rparr>))
          (snd (new (NBody zero_Body) (snd (new (NFictionBook zero_FictionBook) empty_heap)))))
   \<and> impl (cells (set_impl 0 (NFictionBook (zero_FictionBook\<lparr>FictionBook.Body := Some 1\<rparr>))
          (snd (new (NBody zero_Body) (snd (new (NFictionBook zero_FictionBook) empty_heap))))) 1)
       = NBody zero_Body"
proof -
  let ?h = "snd (new (NFictionBook zero_FictionBook) empty_heap)"
  have t: "tagCallback 0 (tag ''body'' []) ?h
     = (Inr 1, set_impl 0 (NFictionBook (zero_FictionBook\<lparr>FictionBook.Body := Some 1\<rparr>))
                 (snd (new (NBody zero_Body) ?h)))"
    by (simp add: tagCallback_def FictionBook_tagCallback_def attach_eq tag_def plain_def)
  show ?thesis
    using t FictionBook_body_binding [of ?h 0 zero_FictionBook "tag ''body'' []", OF _ _ _ t]
    by (simp add: tag_def plain_def)
qed


section \<open>Leaves\<close>

text \<open>
  Claim C6, at a failing input. A \<^verbatim>\<open>Binary\<close> gets the text \<^verbatim>\<open>QUJD!\<close>. The decoder writes the three
  bytes of \<^verbatim>\<open>ABC\<close> and fails on the fifth input byte. The callback returns the error, and
  \<^verbatim>\<open>Value\<close> is left holding the whole buffer of five bytes: the partial result and two zero
  bytes.
\<close>

theorem Binary_bad_base64_leaves_buffer:
  "Binary_charDataCallback example_lib ''QUJD!'' zero_Binary
   = (Some (lib_error ''illegal base64 data at input byte 4''),
      zero_Binary\<lparr>Binary.Value := ''ABC'' @ [CHR 0x00, CHR 0x00]\<rparr>)"
  by (simp add: Binary_charDataCallback_def example_lib_def)

text \<open>
  The two halves of the claim, for any decoder that writes no more than its input is
  long: without an error \<^verbatim>\<open>Value\<close> is exactly what was decoded; with an error \<^verbatim>\<open>Value\<close> is as long
  as the input and starts with what was decoded before the error.
\<close>

lemma Binary_good_base64:
  assumes "base64_Decode lib cd = (written, None)" and "length written \<le> length cd"
  shows "Binary_charDataCallback lib cd b = (None, b\<lparr>Binary.Value := written\<rparr>)"
  using assms by (simp add: Binary_charDataCallback_def)

lemma Binary_bad_base64:
  assumes "base64_Decode lib cd = (written, Some err)" and "length written \<le> length cd"
  shows "Binary_charDataCallback lib cd b =
           (Some err, b\<lparr>Binary.Value := written @ replicate (length cd - length written) (CHR 0x00)\<rparr>)"
    and "length (Binary.Value (snd (Binary_charDataCallback lib cd b))) = length cd"
  using assms by (simp_all add: Binary_charDataCallback_def)

text \<open>
  Claim C7. The raw string of a \<^verbatim>\<open>Date\<close> is its \<^verbatim>\<open>StrValue\<close>, the text of the element; the
  parsed date is \<^verbatim>\<open>Value\<close>, from the attribute \<^verbatim>\<open>value\<close>. When \<^verbatim>\<open>time.Parse\<close> with the fixed
  layout rejects the attribute value, the attribute callback returns that error and the
  whole struct is as it was: \<^verbatim>\<open>Value\<close> unchanged (absent if it was absent), \<^verbatim>\<open>StrValue\<close>
  retained. When it accepts, \<^verbatim>\<open>Value\<close> becomes the parsed time and nothing else changes. The
  text callback stores the raw string whatever \<^verbatim>\<open>Value\<close> is. \<^verbatim>\<open>XMLDate.UnmarshalXMLAttr\<close>
  treats its attribute in the same way.
\<close>

theorem Date_value_attribute:
  assumes "Local (Attr.Name attr) = ''value''"
    and "time_Parse lib (Attr.Value attr) = (parse, perr)"
  shows "Date_attrCallback lib attr d =
           (case perr of
              Some err \<Rightarrow> (Some err, d)
            | None \<Rightarrow> (None, d\<lparr>Date.Value := Some \<lparr>Time = parse\<rparr>\<rparr>))
       \<and> Date.StrValue (snd (Date_attrCallback lib attr d)) = Date.StrValue d
       \<and> Date_charDataCallback cd d = (None, d\<lparr>Date.StrValue := cd\<rparr>)
       \<and> UnmarshalXMLAttr lib attr x =
           (case perr of
              Some err \<Rightarrow> (Some err, x)
            | None \<Rightarrow> (None, x\<lparr>Time := parse\<rparr>))"
  using assms
  by (simp add: Date_attrCallback_def Date_charDataCallback_def UnmarshalXMLAttr_def
        split: option.splits)

theorem Date_value_attribute_witness:
  "Date_attrCallback example_lib \<lparr>Attr.Name = plain ''value'', Value = ''29.02.2020''\<rparr>
      (zero_Date\<lparr>Date.StrValue := ''Feb 2020''\<rparr>)
     = (Some (lib_error ''cannot parse''), zero_Date\<lparr>Date.StrValue := ''Feb 2020''\<rparr>)
   \<and> Date_attrCallback example_lib \<lparr>Attr.Name = plain ''value'', Value = ''2020-02-29''\<rparr> zero_Date
     = (None, zero_Date\<lparr>Date.Value := Some \<lparr>Time = 1582934400\<rparr>\<rparr>)"
  using
    Date_value_attribute
      [of "\<lparr>Attr.Name = plain ''value'', Value = ''29.02.2020''\<rparr>" example_lib 0
          "Some (lib_error ''cannot parse'')" "zero_Date\<lparr>Date.StrValue := ''Feb 2020''\<rparr>"]
    Date_value_attribute
      [of "\<lparr>Attr.Name = plain ''value'', Value = ''2020-02-29''\<rparr>" example_lib 1582934400
          None zero_Date]
  by (simp add: example_lib_def plain_def)

text \<open>
  A run against claim C8. A \<^verbatim>\<open>Link\<close> gets an unqualified \<^verbatim>\<open>href\<close> and then an \<^verbatim>\<open>href\<close> in the xlink
  namespace. Both go to the one field \<^verbatim>\<open>XlinkHref\<close>: the second overwrites the first, and
  the link ends as if the unqualified attribute had never been there.
\<close>

theorem Link_href_counterexample:
  "snd (Link_attrCallback \<lparr>Attr.Name = xlink ''href'', Value = ''#n1''\<rparr>
     (snd (Link_attrCallback \<lparr>Attr.Name = plain ''href'', Value = ''other''\<rparr> zero_Link)))
   = zero_Link\<lparr>Link.XlinkHref := ''#n1''\<rparr>
   \<and> snd (Link_attrCallback \<lparr>Attr.Name = plain ''href'', Value = ''other''\<rparr> zero_Link)
   = zero_Link\<lparr>Link.XlinkHref := ''other''\<rparr>"
  by (simp add: Link_attrCallback_def plain_def xlink_def zero_Link_def)

text \<open>
  Claim C8, as amended. On a \<^verbatim>\<open>Link\<close>, an attribute \<^verbatim>\<open>type\<close> without a namespace is stored in
  \<^verbatim>\<open>Type\<close> and one with a namespace in \<^verbatim>\<open>XlinkType\<close>: two fields, and neither attribute touches
  the other's field. Every attribute \<^verbatim>\<open>href\<close>, with or without a namespace, is stored in the
  single field \<^verbatim>\<open>XlinkHref\<close>; the struct has no field for an unqualified \<^verbatim>\<open>href\<close>.
\<close>

theorem Link_attribute_fields:
  "Link_attrCallback \<lparr>Attr.Name = \<lparr>Space = sp, Local = ''type''\<rparr>, Value = v\<rparr> l
     = (None, if sp = '''' then l\<lparr>Link.Type := v\<rparr> else l\<lparr>Link.XlinkType := v\<rparr>)
   \<and> Link_attrCallback \<lparr>Attr.Name = \<lparr>Space = sp, Local = ''href''\<rparr>, Value = v\<rparr> l
     = (None, l\<lparr>Link.XlinkHref := v\<rparr>)"
  by (simp add: Link_attrCallback_def)

theorem Link_attribute_fields_witness:
  "snd (Link_attrCallback \<lparr>Attr.Name = xlink ''type'', Value = ''simple''\<rparr>
     (snd (Link_attrCallback \<lparr>Attr.Name = plain ''type'', Value = ''note''\<rparr> zero_Link)))
   = zero_Link\<lparr>Link.Type := ''note'', Link.XlinkType := ''simple''\<rparr>"
  using
    Link_attribute_fields [of "''''" "''note''" zero_Link]
    Link_attribute_fields
      [of "''http://www.w3.org/1999/xlink''" "''simple''" "zero_Link\<lparr>Link.Type := ''note''\<rparr>"]
  by (simp add: plain_def xlink_def)


section \<open>Content order is document order\<close>

subsection \<open>Reading back does not depend on cells outside the tree\<close>

lemma GetContent_same_cell:
  "cells h2 a = cells h a \<Longrightarrow> GetContent h2 (Ref a) = GetContent h (Ref a)"
  by (simp add: GetContent_def split: impl.splits)

lemma reads_in_frame:
  "reads_in lo hi h e t \<Longrightarrow> (\<forall>b. lo \<le> b \<and> b < hi \<longrightarrow> cells h2 b = cells h b) \<Longrightarrow> reads_in lo hi h2 e t"
  "read_in lo hi h es ts \<Longrightarrow> (\<forall>b. lo \<le> b \<and> b < hi \<longrightarrow> cells h2 b = cells h b) \<Longrightarrow> read_in lo hi h2 es ts"
proof (induction lo hi h e t and lo hi h es ts rule: reads_in_read_in.induct)
  case (1 lo hi h c s)
  then show ?case by (simp add: GetText_def split: Contenter.splits)
next
  case (2 lo hi h c n attrs ts)
  from "2.prems"(1) obtain a where c: "c = Ref a" and a: "lo \<le> a" "a < hi"
    and nm: "GetXMLName a h = n" and rd: "read_in lo hi h (GetContent h c) ts"
    by (cases c) auto
  from a "2.prems"(2) have same: "cells h2 a = cells h a" by blast
  have "read_in lo hi h2 (GetContent h c) ts"
    using "2.IH" [OF c rd "2.prems"(2)] .
  moreover have "GetContent h2 c = GetContent h c"
    unfolding c using same by (rule GetContent_same_cell)
  moreover have "GetXMLName a h2 = n"
    using same nm by (simp add: GetXMLName_def)
  ultimately show ?case using c a by simp
qed simp_all

lemma reads_in_mono:
  "reads_in lo hi h e t \<Longrightarrow> lo' \<le> lo \<Longrightarrow> hi \<le> hi' \<Longrightarrow> reads_in lo' hi' h e t"
  "read_in lo hi h es ts \<Longrightarrow> lo' \<le> lo \<Longrightarrow> hi \<le> hi' \<Longrightarrow> read_in lo' hi' h es ts"
  by (induction lo hi h e t and lo hi h es ts rule: reads_in_read_in.induct)
     (auto split: Contenter.splits)

lemma reads_in_reads_as:
  "reads_in lo hi h e t \<Longrightarrow> reads_as h e t"
  "read_in lo hi h es ts \<Longrightarrow> read_as h es ts"
  by (induction lo hi h e t and lo hi h es ts rule: reads_in_read_in.induct)
     (auto split: Contenter.splits)

lemma read_in_append:
  "read_in lo hi h es ts \<Longrightarrow> read_in lo hi h es' ts' \<Longrightarrow> read_in lo hi h (es @ es') (ts @ ts')"
  by (induction es ts rule: list_induct2') auto


lemma read_as_nth: "read_as h es ts \<Longrightarrow> i < length ts \<Longrightarrow> reads_as h (es ! i) (ts ! i)"
proof (induction es ts arbitrary: i rule: list_induct2')
  case (4 e es t ts)
  then show ?case by (cases i) auto
qed auto

subsection \<open>The steps of the driver inside the vocabulary\<close>

lemma open_step:
  assumes "ctx_of (impl (cells h r)) = Some c"
    and "child_ctx c (Local (StartElement.Name e)) = Some c'" and "r < nxt h"
  shows "\<exists>h1. tagCallback r e h = (Inr (nxt h), h1)
           \<and> nxt h1 = Suc (nxt h)
           \<and> (\<forall>b. b \<noteq> r \<and> b \<noteq> nxt h \<longrightarrow> cells h1 b = cells h b)
           \<and> XMLName (cells h1 r) = XMLName (cells h r)
           \<and> ctx_of (impl (cells h1 r)) = Some c
           \<and> GetContent h1 (Ref r) = GetContent h (Ref r) @ [Ref (nxt h)]
           \<and> ctx_of (impl (cells h1 (nxt h))) = Some c'
           \<and> GetContent h1 (Ref (nxt h)) = []"
  using assms
  by (cases "impl (cells h r)")
     (auto simp: ctx_of_def child_ctx_def tagCallback_def StyleType_tagCallback_def
        StyleLinkType_tagCallback_def TR_tagCallback_def Table_tagCallback_def attach_eq
        appendContent_def set_impl_def GetContent_def split: if_splits ctx.splits)

lemma reject_step:
  assumes "ctx_of (impl (cells h r)) = Some c"
    and "child_ctx c (Local (StartElement.Name e)) = None"
    and "\<not> (c = Rows \<and> Local (StartElement.Name e) = ''id'')"
  shows "tagCallback r e h = (Inl (unexpected_tag (StartElement.Name e)), h)"
  using assms
  by (cases "impl (cells h r)")
     (auto simp: ctx_of_def child_ctx_def tagCallback_def StyleType_tagCallback_def
        StyleLinkType_tagCallback_def TR_tagCallback_def Table_tagCallback_def
        baseNode_tagCallback_def split: if_splits ctx.splits)

lemma text_step:
  assumes "ctx_of (impl (cells h r)) = Some c"
  shows "\<exists>h1. charDataCallback lib r s h = (None, h1)
           \<and> nxt h1 = nxt h
           \<and> (\<forall>b. b \<noteq> r \<longrightarrow> cells h1 b = cells h b)
           \<and> XMLName (cells h1 r) = XMLName (cells h r)
           \<and> ctx_of (impl (cells h1 r)) = Some c
           \<and> GetContent h1 (Ref r) = GetContent h (Ref r) @ (if keeps_text c then [CharData s] else [])"
  using assms
  by (cases "impl (cells h r)")
     (auto simp: ctx_of_def keeps_text_def charDataCallback_def mixed_charDataCallback_def
        GetContent_def)

lemma GetContent_SetXMLName [simp]: "GetContent (SetXMLName a n h) c = GetContent h c"
proof (cases c)
  case (Ref x)
  then show ?thesis
    by (cases "x = a") (simp_all add: GetContent_def SetXMLName_def split: impl.splits)
qed (simp add: GetContent_def)

lemma cells_SetXMLName [simp]:
  "cells (SetXMLName a n h) b = (if b = a then (cells h a)\<lparr>XMLName := n\<rparr> else cells h b)"
  by (simp add: SetXMLName_def)

lemma nxt_SetXMLName [simp]: "nxt (SetXMLName a n h) = nxt h"
  by (simp add: SetXMLName_def)

lemmas attr_defs =
  Title_attrCallback_def StyleType_attrCallback_def P_attrCallback_def Cite_attrCallback_def
  Stanza_attrCallback_def Epigraph_attrCallback_def Annotation_attrCallback_def
  Section_attrCallback_def NamedStyleType_attrCallback_def Link_attrCallback_def
  Table_attrCallback_def TR_attrCallback_def TD_attrCallback_def InlineImage_attrCallback_def
  Body_attrCallback_def NotesBody_attrCallback_def FictionBook_attrCallback_def
  Stylesheet_attrCallback_def TextField_attrCallback_def CustomInfo_attrCallback_def
  Binary_attrCallback_def Date_attrCallback_def Sequence_attrCallback_def Genre_attrCallback_def
  ShareInstruction_attrCallback_def PartShareInstruction_attrCallback_def
  OutPutDocument_attrCallback_def

lemma attrCallback_frame:
  assumes "attrCallback lib a attr h = (err, h1)"
  shows "nxt h1 = nxt h \<and> (\<forall>b. b \<noteq> a \<longrightarrow> cells h1 b = cells h b)
       \<and> XMLName (cells h1 a) = XMLName (cells h a)
       \<and> ctx_of (impl (cells h1 a)) = ctx_of (impl (cells h a))
       \<and> GetContent h1 (Ref a) = GetContent h (Ref a)"
  using assms
  by (cases "impl (cells h a)")
     (auto simp: attrCallback_def own_def set_impl_def attr_defs ctx_of_def GetContent_def Let_def
        split: if_splits prod.splits option.splits)

lemma attr_loop_frame:
  assumes "attr_loop lib a attrs h = (err, h1)"
  shows "nxt h1 = nxt h \<and> (\<forall>b. b \<noteq> a \<longrightarrow> cells h1 b = cells h b)
       \<and> XMLName (cells h1 a) = XMLName (cells h a)
       \<and> ctx_of (impl (cells h1 a)) = ctx_of (impl (cells h a))
       \<and> GetContent h1 (Ref a) = GetContent h (Ref a)"
  using assms
proof (induction attrs arbitrary: h)
  case Nil
  then show ?case by simp
next
  case (Cons attr rest)
  obtain e h0 where cb: "attrCallback lib a attr h = (e, h0)"
    by (cases "attrCallback lib a attr h")
  note f0 = attrCallback_frame [OF cb]
  show ?case
  proof (cases e)
    case None
    with cb Cons.prems have "attr_loop lib a rest h0 = (err, h1)" by simp
    from Cons.IH [OF this] f0 show ?thesis by simp
  next
    case (Some x)
    with cb Cons.prems have "h1 = h0" by simp
    with f0 show ?thesis by simp
  qed
qed

subsection \<open>A parent gains its children in order\<close>

lemma grows_refl: "grows r h h []"
  by (simp add: grows_def)

lemma grows_trans:
  assumes "grows r h h1 es1" and "grows r h1 h2 es2"
  shows "grows r h h2 (es1 @ es2)"
proof -
  have "\<forall>b. b < nxt h \<and> b \<noteq> r \<longrightarrow> cells h2 b = cells h b"
  proof (intro allI impI)
    fix b assume b: "b < nxt h \<and> b \<noteq> r"
    with assms(1) have "b < nxt h1" and "cells h1 b = cells h b"
      by (auto simp: grows_def)
    with assms(2) b show "cells h2 b = cells h b"
      by (simp add: grows_def)
  qed
  with assms show ?thesis
    by (simp add: grows_def)
qed

lemma parse_children:
  assumes "\<forall>t\<in>set ts. parses lib t"
    and "list_all (no_early_close (XMLName (cells h r)) c) ts"
    and "ctx_of (impl (cells h r)) = Some c"
    and "r < nxt h" and "last' p = Some r"
  shows "\<exists>h' es. Parse_loop lib (concat (map tokens_of ts)) p h = Some (p, h') \<and> grows r h h' es
           \<and> read_in (nxt h) (nxt h') h' es (concat (map (placed c) ts))"
  using assms
proof (induction ts arbitrary: h)
  case Nil
  have "Parse_loop lib (concat (map tokens_of [])) p h = Some (p, h)" by simp
  moreover have "read_in (nxt h) (nxt h) h [] (concat (map (placed c) []))" by simp
  moreover have "grows r h h []" by (rule grows_refl)
  ultimately show ?case by blast
next
  case (Cons t ts)
  have t_ok: "no_early_close (XMLName (cells h r)) c t"
    and ts_ok: "list_all (no_early_close (XMLName (cells h r)) c) ts"
    using Cons.prems(2) by simp_all
  have pt: "parses lib t" and pts: "\<forall>t\<in>set ts. parses lib t"
    using Cons.prems(1) by simp_all
  have "\<exists>h' es. Parse_loop lib (tokens_of t) p h = Some (p, h') \<and> grows r h h' es
           \<and> read_in (nxt h) (nxt h') h' es (placed c t)"
    using pt t_ok Cons.prems(3) Cons.prems(4) Cons.prems(5) unfolding parses_def by blast
  then obtain h1 es1 where run1: "Parse_loop lib (tokens_of t) p h = Some (p, h1)"
    and g1: "grows r h h1 es1" and rd1: "read_in (nxt h) (nxt h1) h1 es1 (placed c t)"
    by blast
  have ctx1: "ctx_of (impl (cells h1 r)) = Some c"
    using g1 Cons.prems(3) by (simp add: grows_def)
  have nm1: "XMLName (cells h1 r) = XMLName (cells h r)"
    using g1 by (simp add: grows_def)
  have ts_ok1: "list_all (no_early_close (XMLName (cells h1 r)) c) ts"
    using ts_ok nm1 by simp
  have le1: "nxt h \<le> nxt h1"
    using g1 by (simp add: grows_def)
  have r1: "r < nxt h1"
    using le1 Cons.prems(4) by simp
  from Cons.IH [OF pts ts_ok1 ctx1 r1 Cons.prems(5)]
  obtain h2 es2 where run2: "Parse_loop lib (concat (map tokens_of ts)) p h1 = Some (p, h2)"
    and g2: "grows r h1 h2 es2"
    and rd2: "read_in (nxt h1) (nxt h2) h2 es2 (concat (map (placed c) ts))"
    by blast
  have le2: "nxt h1 \<le> nxt h2"
    using g2 by (simp add: grows_def)
  have run: "Parse_loop lib (concat (map tokens_of (t # ts))) p h = Some (p, h2)"
    using run1 run2 by (simp add: Parse_loop_append)
  have g: "grows r h h2 (es1 @ es2)"
    using g1 g2 by (rule grows_trans)
  have older: "\<forall>b. b < nxt h1 \<and> b \<noteq> r \<longrightarrow> cells h2 b = cells h1 b"
    using g2 by (simp add: grows_def)
  have same: "\<forall>b. nxt h \<le> b \<and> b < nxt h1 \<longrightarrow> cells h2 b = cells h1 b"
  proof (intro allI impI)
    fix b assume b: "nxt h \<le> b \<and> b < nxt h1"
    with Cons.prems(4) have "b \<noteq> r" by simp
    with b older show "cells h2 b = cells h1 b" by simp
  qed
  have "read_in (nxt h) (nxt h1) h2 es1 (placed c t)"
    using rd1 same by (rule reads_in_frame(2))
  then have "read_in (nxt h) (nxt h2) h2 es1 (placed c t)"
    using le2 by (rule reads_in_mono(2) [OF _ le_refl])
  moreover have "read_in (nxt h) (nxt h2) h2 es2 (concat (map (placed c) ts))"
    using rd2 le1 by (rule reads_in_mono(2) [OF _ _ le_refl])
  ultimately have "read_in (nxt h) (nxt h2) h2 (es1 @ es2) (placed c t @ concat (map (placed c) ts))"
    by (rule read_in_append)
  then have "read_in (nxt h) (nxt h2) h2 (es1 @ es2) (concat (map (placed c) (t # ts)))"
    by simp
  with run g show ?case by blast
qed


subsection \<open>Every tree is parsed into the entries it contributes\<close>

lemma parses_Text: "parses lib (Text s)"
  unfolding parses_def
proof (intro allI impI, elim conjE)
  fix c :: ctx and h :: heap and r :: addr and p :: Parser
  assume ctx: "ctx_of (impl (cells h r)) = Some c" and lst: "last' p = Some r"
  define es where "es = (if keeps_text c then [CharData s] else [])"
  from text_step [OF ctx, of lib s]
  obtain h1 where cb: "charDataCallback lib r s h = (None, h1)" and n1: "nxt h1 = nxt h"
    and fr: "\<forall>b. b \<noteq> r \<longrightarrow> cells h1 b = cells h b"
    and nm: "XMLName (cells h1 r) = XMLName (cells h r)"
    and cx: "ctx_of (impl (cells h1 r)) = Some c"
    and gc: "GetContent h1 (Ref r) = GetContent h (Ref r) @ es"
    unfolding es_def by blast
  have "Parse_loop lib (tokens_of (Text s)) p h = Some (p, h1)"
    using ParseToken_chardata [OF lst cb] by simp
  moreover have "grows r h h1 es"
    using n1 fr nm cx gc ctx by (simp add: grows_def)
  moreover have "read_in (nxt h) (nxt h1) h1 es (placed c (Text s))"
    by (simp add: es_def GetText_def)
  ultimately show "\<exists>h' es. Parse_loop lib (tokens_of (Text s)) p h = Some (p, h') \<and> grows r h h' es
      \<and> read_in (nxt h) (nxt h') h' es (placed c (Text s))"
    by blast
qed

lemma parses_passed_over:
  assumes "tokens_of t = [tok]"
    and "\<And>p h. ParseToken lib tok p h = Return None p h"
    and "\<And>c. placed c t = []"
  shows "parses lib t"
  unfolding parses_def
proof (intro allI impI)
  fix c :: ctx and h :: heap and r :: addr and p :: Parser
  have "Parse_loop lib (tokens_of t) p h = Some (p, h)"
    using assms(1) assms(2) by simp
  moreover have "grows r h h []"
    by (rule grows_refl)
  moreover have "read_in (nxt h) (nxt h) h [] (placed c t)"
    using assms(3) by simp
  ultimately show "\<exists>h' es. Parse_loop lib (tokens_of t) p h = Some (p, h') \<and> grows r h h' es
      \<and> read_in (nxt h) (nxt h') h' es (placed c t)"
    by blast
qed

lemma parses_Comment: "parses lib (Comment s)"
  by (rule parses_passed_over [of _ "xml_Comment s"]) (simp_all add: ParseToken_def)

lemma parses_ProcInst: "parses lib (ProcInst t s)"
  by (rule parses_passed_over [of _ "xml_ProcInst t s"]) (simp_all add: ParseToken_def)

lemma parses_Directive: "parses lib (Directive s)"
  by (rule parses_passed_over [of _ "xml_Directive s"]) (simp_all add: ParseToken_def)

text \<open>An element that is legal where it stands: one new node, filled by its children.\<close>

lemma parses_Elem_legal:
  assumes kids: "\<forall>t\<in>set ts. parses lib t"
    and cc: "child_ctx c (Local n) = Some c'"
    and kids_ok: "list_all (no_early_close n c') ts"
    and ctx: "ctx_of (impl (cells h r)) = Some c"
    and r_lt_h: "r < nxt h" and lst: "last' p = Some r"
  shows "\<exists>h' es. Parse_loop lib (tokens_of (Elem n attrs ts)) p h = Some (p, h') \<and> grows r h h' es
      \<and> read_in (nxt h) (nxt h') h' es [Elem n attrs (concat (map (placed c') ts))]"
proof -
  define a where "a = nxt h"
  define e where "e = \<lparr>StartElement.Name = n, Attr = attrs\<rparr>"
  have cc': "child_ctx c (Local (StartElement.Name e)) = Some c'"
    using cc by (simp add: e_def)
  from open_step [OF ctx cc' r_lt_h]
  obtain h1 where tc: "tagCallback r e h = (Inr a, h1)"
    and n1: "nxt h1 = Suc a"
    and fr1: "\<forall>b. b \<noteq> r \<and> b \<noteq> a \<longrightarrow> cells h1 b = cells h b"
    and nm1: "XMLName (cells h1 r) = XMLName (cells h r)"
    and cx1: "ctx_of (impl (cells h1 r)) = Some c"
    and gc1: "GetContent h1 (Ref r) = GetContent h (Ref r) @ [Ref a]"
    and cxa: "ctx_of (impl (cells h1 a)) = Some c'"
    and gca: "GetContent h1 (Ref a) = []"
    unfolding a_def by blast
  obtain err h2 where al: "attr_loop lib a (StartElement.Attr e) (SetXMLName a (StartElement.Name e) h1) = (err, h2)"
    by (cases "attr_loop lib a (StartElement.Attr e) (SetXMLName a (StartElement.Name e) h1)")
  note fa = attr_loop_frame [OF al]
  define p1 where "p1 = p\<lparr>stack := stack p @ [r], last' := Some a\<rparr>"
  have ra: "r \<noteq> a" and r_lt: "r < a"
    using r_lt_h by (simp_all add: a_def)
  have step1: "ParseToken lib (xml_StartElement e) p h = Return err p1 h2"
    unfolding p1_def using lst tc al by (rule ParseToken_start_child)
  have n2: "nxt h2 = Suc a"
    using n1 fa by simp
  have cxa2: "ctx_of (impl (cells h2 a)) = Some c'"
    using cxa fa by simp
  have nma2: "XMLName (cells h2 a) = n"
    using fa by (simp add: e_def)
  have gca2: "GetContent h2 (Ref a) = []"
    using gca fa by simp
  have r2: "cells h2 r = cells h1 r"
    using ra fa by simp
  have others2: "\<forall>b. b \<noteq> a \<longrightarrow> cells h2 b = cells h1 b"
    using fa by simp
  have last1: "last' p1 = Some a"
    by (simp add: p1_def)
  have a_lt: "a < nxt h2"
    using n2 by simp
  have kids_ok2: "list_all (no_early_close (XMLName (cells h2 a)) c') ts"
    using kids_ok nma2 by simp
  from parse_children [OF kids kids_ok2 cxa2 a_lt last1]
  obtain h3 es where run: "Parse_loop lib (concat (map tokens_of ts)) p1 h2 = Some (p1, h3)"
    and g: "grows a h2 h3 es"
    and rd: "read_in (nxt h2) (nxt h3) h3 es (concat (map (placed c') ts))"
    by blast
  have n3: "Suc a \<le> nxt h3"
    using g n2 by (simp add: grows_def)
  have old: "\<forall>b. b < Suc a \<and> b \<noteq> a \<longrightarrow> cells h3 b = cells h2 b"
    using g n2 by (simp add: grows_def)
  have nma3: "GetXMLName a h3 = n"
    using g nma2 by (simp add: grows_def GetXMLName_def)
  have gca3: "GetContent h3 (Ref a) = es"
    using g gca2 by (simp add: grows_def)
  have stk: "stack p1 = stack p @ [r]"
    by (simp add: p1_def)
  have restored: "p1\<lparr>last' := Some r, stack := stack p\<rparr> = p"
    using lst by (cases p) (simp add: p1_def)
  have "ParseToken lib (xml_EndElement n) p1 h3 = Return None (p1\<lparr>last' := Some r, stack := stack p\<rparr>) h3"
    using last1 nma3 stk by (rule ParseToken_end_pop)
  then have step3: "ParseToken lib (xml_EndElement n) p1 h3 = Return None p h3"
    using restored by simp
  have total: "Parse_loop lib (tokens_of (Elem n attrs ts)) p h = Some (p, h3)"
    using step1 run step3 by (simp add: Parse_loop_append e_def)
  have r3: "cells h3 r = cells h2 r"
    using old r_lt ra by simp
  have r31: "cells h3 r = cells h1 r"
    using r3 r2 by simp
  have "GetContent h3 (Ref r) = GetContent h1 (Ref r)"
    using r31 by (rule GetContent_same_cell)
  then have gcr: "GetContent h3 (Ref r) = GetContent h (Ref r) @ [Ref a]"
    using gc1 by simp
  have others: "\<forall>b. b < nxt h \<and> b \<noteq> r \<longrightarrow> cells h3 b = cells h b"
  proof (intro allI impI)
    fix b assume b: "b < nxt h \<and> b \<noteq> r"
    then have ba: "b < Suc a" "b \<noteq> a" by (simp_all add: a_def)
    then have "cells h3 b = cells h2 b"
      using old by simp
    also have "cells h2 b = cells h1 b"
      using ba others2 by simp
    also have "cells h1 b = cells h b"
      using b ba fr1 by simp
    finally show "cells h3 b = cells h b" .
  qed
  have le3: "nxt h \<le> nxt h3"
    using n3 by (simp add: a_def)
  have grow: "grows r h h3 [Ref a]"
    unfolding grows_def using le3 others gcr r31 nm1 cx1 ctx by simp
  have "read_in (nxt h) (nxt h3) h3 es (concat (map (placed c') ts))"
    using rd by (rule reads_in_mono(2)) (simp_all add: n2 a_def)
  then have "reads_in (nxt h) (nxt h3) h3 (Ref a) (Elem n attrs (concat (map (placed c') ts)))"
    using n3 nma3 gca3 by (simp add: a_def)
  then have "read_in (nxt h) (nxt h3) h3 [Ref a] [Elem n attrs (concat (map (placed c') ts))]"
    by simp
  with total grow show ?thesis
    by blast
qed

text \<open>
  An element that is not legal where it stands: its open tag and its close tag are both
  rejected and change nothing; the tokens between them go to the current node.
\<close>

lemma parses_Elem_rejected:
  assumes kids: "\<forall>t\<in>set ts. parses lib t"
    and cc: "child_ctx c (Local n) = None"
    and differs: "n \<noteq> XMLName (cells h r)"
    and no_id: "\<not> (c = Rows \<and> Local n = ''id'')"
    and kids_ok: "list_all (no_early_close (XMLName (cells h r)) c) ts"
    and ctx: "ctx_of (impl (cells h r)) = Some c"
    and r_lt_h: "r < nxt h" and lst: "last' p = Some r"
  shows "\<exists>h' es. Parse_loop lib (tokens_of (Elem n attrs ts)) p h = Some (p, h') \<and> grows r h h' es
      \<and> read_in (nxt h) (nxt h') h' es (concat (map (placed c) ts))"
proof -
  define e where "e = \<lparr>StartElement.Name = n, Attr = attrs\<rparr>"
  have "tagCallback r e h = (Inl (unexpected_tag (StartElement.Name e)), h)"
    using ctx by (rule reject_step) (simp_all add: e_def cc no_id)
  with lst have step1: "ParseToken lib (xml_StartElement e) p h
      = Return (Some (unexpected_tag (StartElement.Name e))) p h"
    by (rule ParseToken_start_error)
  from parse_children [OF kids kids_ok ctx r_lt_h lst]
  obtain h1 es where run: "Parse_loop lib (concat (map tokens_of ts)) p h = Some (p, h1)"
    and g: "grows r h h1 es"
    and rd: "read_in (nxt h) (nxt h1) h1 es (concat (map (placed c) ts))"
    by blast
  have "GetXMLName r h1 \<noteq> n"
    using g differs by (simp add: grows_def GetXMLName_def)
  with lst have step3: "ParseToken lib (xml_EndElement n) p h1
      = Return (Some (unexpected_close_tag n)) p h1"
    by (rule ParseToken_end_mismatch)
  have "Parse_loop lib (tokens_of (Elem n attrs ts)) p h = Some (p, h1)"
    using step1 run step3 by (simp add: Parse_loop_append e_def)
  with g rd show ?thesis
    by blast
qed

lemma parses_Elem:
  assumes kids: "\<forall>t\<in>set ts. parses lib t"
  shows "parses lib (Elem n attrs ts)"
  unfolding parses_def
proof (intro allI impI, elim conjE)
  fix c :: ctx and h :: heap and r :: addr and p :: Parser
  assume ok: "no_early_close (XMLName (cells h r)) c (Elem n attrs ts)"
    and ctx: "ctx_of (impl (cells h r)) = Some c"
    and r_lt_h: "r < nxt h" and lst: "last' p = Some r"
  show "\<exists>h' es. Parse_loop lib (tokens_of (Elem n attrs ts)) p h = Some (p, h') \<and> grows r h h' es
      \<and> read_in (nxt h) (nxt h') h' es (placed c (Elem n attrs ts))"
  proof (cases "child_ctx c (Local n)")
    case None
    with ok have differs: "n \<noteq> XMLName (cells h r)"
      and no_id: "\<not> (c = Rows \<and> Local n = ''id'')"
      and kids_ok: "list_all (no_early_close (XMLName (cells h r)) c) ts"
      by simp_all
    from parses_Elem_rejected [OF kids None differs no_id kids_ok ctx r_lt_h lst, of attrs] None
    show ?thesis by simp
  next
    case (Some c')
    with ok have kids_ok: "list_all (no_early_close n c') ts"
      by simp
    from parses_Elem_legal [OF kids Some kids_ok ctx r_lt_h lst, of attrs] Some
    show ?thesis by simp
  qed
qed

lemma parses_all: "parses lib t"
  by (induction t)
     (simp_all add: parses_Text parses_Elem parses_Comment parses_ProcInst parses_Directive)

lemma parse_content:
  assumes "list_all (no_early_close (XMLName (cells h r)) c) ts"
    and "ctx_of (impl (cells h r)) = Some c"
    and "r < nxt h" and "last' p = Some r"
  shows "\<exists>h' es. Parse_loop lib (tokens_list ts) p h = Some (p, h') \<and> grows r h h' es
           \<and> read_in (nxt h) (nxt h') h' es (placed_all c ts)"
  unfolding tokens_list_def placed_all_def using parse_children [OF _ assms] parses_all by blast

subsection \<open>Inside the vocabulary every tree is one entry\<close>

lemma in_vocab_no_early_close: "in_vocab c t \<Longrightarrow> no_early_close nm c t"
proof (induction t arbitrary: c nm)
  case (Elem n attrs ts)
  then obtain c' where cc: "child_ctx c (Local n) = Some c'" and kids: "list_all (in_vocab c') ts"
    by (auto split: option.splits)
  have "list_all (no_early_close n c') ts"
    using kids Elem.IH by (simp add: list_all_iff)
  with cc show ?case by simp
qed simp_all

lemma placed_in_vocab: "in_vocab c t \<Longrightarrow> placed c t = [t]"
proof (induction t arbitrary: c)
  case (Elem n attrs ts)
  then obtain c' where cc: "child_ctx c (Local n) = Some c'" and kids: "list_all (in_vocab c') ts"
    by (auto split: option.splits)
  have "\<forall>t\<in>set ts. placed c' t = [t]"
    using kids Elem.IH by (simp add: list_all_iff)
  then have "concat (map (placed c') ts) = ts"
    by (induction ts) simp_all
  with cc show ?case by simp
qed simp_all

lemma placed_all_in_vocab: "list_all (in_vocab c) ts \<Longrightarrow> placed_all c ts = ts"
  unfolding placed_all_def by (induction ts) (simp_all add: placed_in_vocab)

text \<open>
  An element that is not legal where it stands is no entry of the content; what is inside
  it takes its place, between what comes before and what comes after.
\<close>

lemma placed_all_unknown:
  assumes "child_ctx c (Local n) = None"
  shows "placed_all c (before @ Elem n attrs inner # after)
       = placed_all c before @ placed_all c inner @ placed_all c after"
  using assms by (simp add: placed_all_def)


subsection \<open>A whole element\<close>

lemma ParseToken_start_root:
  assumes "last' p = None" and "first p = Some r"
    and "attr_loop lib r (StartElement.Attr e) (SetXMLName r (StartElement.Name e) h) = (err, h2)"
  shows "ParseToken lib (xml_StartElement e) p h = Return err (p\<lparr>last' := Some r\<rparr>) h2"
  using assms by (simp add: ParseToken_def)

lemma ParseToken_end_root:
  assumes "last' p = Some l" and "GetXMLName l h = name" and "stack p = []"
  shows "ParseToken lib (xml_EndElement name) p h = Return None (p\<lparr>last' := None\<rparr>) h"
  using assms by (simp add: ParseToken_def)

lemma UnmarshalXML_content:
  assumes voc: "list_all (no_early_close (StartElement.Name start) c) ts"
    and ctx: "ctx_of (impl (cells h r)) = Some c"
    and r_lt: "r < nxt h"
  shows "\<exists>h' es. UnmarshalXML lib r (tokens_list ts @ [xml_EndElement (StartElement.Name start)])
                   None start h
                 = Return None \<lparr>stack = [], last' = None, first = Some r\<rparr> h'
           \<and> GetContent h' (Ref r) = GetContent h (Ref r) @ es \<and> read_as h' es (placed_all c ts)"
proof -
  define p0 where "p0 = \<lparr>stack = [], last' = Some r, first = Some r\<rparr>"
  obtain err h0 where al:
    "attr_loop lib r (StartElement.Attr start) (SetXMLName r (StartElement.Name start) h) = (err, h0)"
    by (cases "attr_loop lib r (StartElement.Attr start) (SetXMLName r (StartElement.Name start) h)")
  note fa = attr_loop_frame [OF al]
  have "ParseToken lib (xml_StartElement start) (NewParser (Some r)) h
          = Return err (NewParser (Some r)\<lparr>last' := Some r\<rparr>) h0"
    using _ _ al by (rule ParseToken_start_root) (simp_all add: NewParser_def)
  then have step0: "ParseToken lib (xml_StartElement start) (NewParser (Some r)) h = Return err p0 h0"
    by (simp add: NewParser_def p0_def)
  have ctx0: "ctx_of (impl (cells h0 r)) = Some c"
    using fa ctx by simp
  have n0: "nxt h0 = nxt h"
    using fa by simp
  have r0: "r < nxt h0"
    using n0 r_lt by simp
  have nm0: "XMLName (cells h0 r) = StartElement.Name start"
    using fa by simp
  have voc0: "list_all (no_early_close (XMLName (cells h0 r)) c) ts"
    using voc nm0 by simp
  have gc0: "GetContent h0 (Ref r) = GetContent h (Ref r)"
    using fa by simp
  have last0: "last' p0 = Some r"
    by (simp add: p0_def)
  from parse_content [OF voc0 ctx0 r0 last0]
  obtain h1 es where run: "Parse_loop lib (tokens_list ts) p0 h0 = Some (p0, h1)"
    and g: "grows r h0 h1 es" and rd: "read_in (nxt h0) (nxt h1) h1 es (placed_all c ts)"
    by blast
  have nm1: "GetXMLName r h1 = StartElement.Name start"
    using g nm0 by (simp add: grows_def GetXMLName_def)
  have "ParseToken lib (xml_EndElement (StartElement.Name start)) p0 h1
          = Return None (p0\<lparr>last' := None\<rparr>) h1"
    using last0 nm1 by (rule ParseToken_end_root) (simp add: p0_def)
  then have step1: "ParseToken lib (xml_EndElement (StartElement.Name start)) p0 h1
          = Return None \<lparr>stack = [], last' = None, first = Some r\<rparr> h1"
    by (simp add: p0_def)
  have loop: "Parse_loop lib (tokens_list ts @ [xml_EndElement (StartElement.Name start)]) p0 h0
          = Some (\<lparr>stack = [], last' = None, first = Some r\<rparr>, h1)"
    using run step1 by (simp add: Parse_loop_append)
  have whole: "UnmarshalXML lib r (tokens_list ts @ [xml_EndElement (StartElement.Name start)])
                 None start h
               = Return None \<lparr>stack = [], last' = None, first = Some r\<rparr> h1"
    using step0 loop by (simp add: UnmarshalXML_def Parse_def)
  have "GetContent h1 (Ref r) = GetContent h (Ref r) @ es"
    using g gc0 by (simp add: grows_def)
  moreover have "read_as h1 es (placed_all c ts)"
    using rd by (rule reads_in_reads_as(2))
  ultimately show ?thesis
    using whole by blast
qed



text \<open>
  Claim C4. Let the current node be a mixed-content node with no content yet: a \<^verbatim>\<open>StyleType\<close>,
  a \<^verbatim>\<open>P\<close>, \<^verbatim>\<open>NamedStyleType\<close> or \<^verbatim>\<open>TD\<close>, which embed it, or a \<^verbatim>\<open>Link\<close> or \<^verbatim>\<open>StyleLinkType\<close>. Let \<open>ts\<close> be
  the children of its element: any sequence of text, elements (legal or not, nested to any
  depth, with any attributes), comments, processing instructions and directives, in which
  no element dispatched to a node that rejects it bears that node's name. Parsing the tokens
  of \<open>ts\<close> in document order, up to the close tag of the node, returns \<^verbatim>\<open>nil\<close>, and what
  \<^verbatim>\<open>GetContent()\<close> of the node then returns reads, entry by entry and in order, as what \<open>ts\<close>
  contributes: a text entry for each text run, an element with the same name for each
  legal element (\<^verbatim>\<open>style\<close>, \<^verbatim>\<open>a\<close>, \<^verbatim>\<open>image\<close>, \<^verbatim>\<open>strong\<close>, \<^verbatim>\<open>emphasis\<close>, \<^verbatim>\<open>strikethrough\<close>, \<^verbatim>\<open>sub\<close>, \<^verbatim>\<open>sup\<close>,
  \<^verbatim>\<open>code\<close>; inside a link all but \<^verbatim>\<open>a\<close>), and the same again for the content of each element. When
  \<open>ts\<close> holds only text and legal elements, the content reads as \<open>ts\<close> itself. For
  \<^verbatim>\<open>text-a<strong>bold</strong>text-b\<close> that is the list of the text \<^verbatim>\<open>text-a\<close>, a \<^verbatim>\<open>strong\<close> whose
  content is the text \<^verbatim>\<open>bold\<close>, and the text \<^verbatim>\<open>text-b\<close>.
\<close>

theorem mixed_content_in_document_order:
  assumes "ctx_of (impl (cells h r)) = Some c" and "keeps_text c"
    and "r < nxt h" and "GetContent h (Ref r) = []"
    and "list_all (no_early_close (StartElement.Name start) c) ts"
  shows "\<exists>p' h'. UnmarshalXML lib r (tokens_list ts @ [xml_EndElement (StartElement.Name start)])
                   None start h = Return None p' h'
           \<and> read_as h' (GetContent h' (Ref r)) (placed_all c ts)
           \<and> (list_all (in_vocab c) ts \<longrightarrow> read_as h' (GetContent h' (Ref r)) ts)"
proof -
  from UnmarshalXML_content [OF assms(5) assms(1) assms(3), of lib] assms(4)
  obtain p' h' where run: "UnmarshalXML lib r
        (tokens_list ts @ [xml_EndElement (StartElement.Name start)]) None start h = Return None p' h'"
    and rd: "read_as h' (GetContent h' (Ref r)) (placed_all c ts)"
    by auto
  have "list_all (in_vocab c) ts \<longrightarrow> read_as h' (GetContent h' (Ref r)) ts"
  proof
    assume "list_all (in_vocab c) ts"
    then have "placed_all c ts = ts"
      by (rule placed_all_in_vocab)
    with rd show "read_as h' (GetContent h' (Ref r)) ts"
      by simp
  qed
  with run rd show ?thesis
    by blast
qed

text \<open>
  The theorem at the example of the claim, parsed into a \<^verbatim>\<open>StyleType\<close>, and at the paragraph
  \<^verbatim>\<open><p>see <a href="#n1">note<image/></a><image/><!--c--><foo>un<style>known</style></foo> end</p>\<close>,
  whose content reads as the text, the link with its text and image, the image, the text
  and the \<^verbatim>\<open>style\<close> inside the unknown \<^verbatim>\<open>foo\<close>, and the last text.
\<close>

theorem mixed_content_in_document_order_witness:
  "(\<exists>p' h'. UnmarshalXML example_lib 0
       [xml_CharData ''text-a'',
        xml_StartElement (tag ''strong'' []), xml_CharData ''bold'', xml_EndElement (plain ''strong''),
        xml_CharData ''text-b'',
        xml_EndElement (plain ''p'')] None
       (tag ''p'' []) (snd (new (NStyleType zero_StyleType) empty_heap)) = Return None p' h'
     \<and> read_as h' (GetContent h' (Ref 0))
          [Text ''text-a'', Elem (plain ''strong'') [] [Text ''bold''], Text ''text-b''])
   \<and> (\<exists>p' h'. UnmarshalXML example_lib 0
       [xml_CharData ''see '',
        xml_StartElement (tag ''a'' [(''href'', ''#n1'')]), xml_CharData ''note'',
          xml_StartElement (tag ''image'' []), xml_EndElement (plain ''image''),
        xml_EndElement (plain ''a''),
        xml_StartElement (tag ''image'' []), xml_EndElement (plain ''image''),
        xml_Comment ''c'',
        xml_StartElement (tag ''foo'' []), xml_CharData ''un'',
          xml_StartElement (tag ''style'' []), xml_CharData ''known'', xml_EndElement (plain ''style''),
        xml_EndElement (plain ''foo''),
        xml_CharData '' end'',
        xml_EndElement (plain ''p'')] None
       (tag ''p'' []) (snd (new (NP zero_P) empty_heap)) = Return None p' h'
     \<and> read_as h' (GetContent h' (Ref 0))
          [Text ''see '',
           Elem (plain ''a'') [\<lparr>Attr.Name = plain ''href'', Value = ''#n1''\<rparr>]
             [Text ''note'', Elem (plain ''image'') [] []],
           Elem (plain ''image'') [] [],
           Text ''un'', Elem (plain ''style'') [] [Text ''known''],
           Text '' end''])"
proof -
  let ?ts1 = "[Text ''text-a'', Elem (plain ''strong'') [] [Text ''bold''], Text ''text-b'']"
  let ?h1 = "snd (new (NStyleType zero_StyleType) empty_heap)"
  let ?ts2 = "[Text ''see '',
           Elem (plain ''a'') [\<lparr>Attr.Name = plain ''href'', Value = ''#n1''\<rparr>]
             [Text ''note'', Elem (plain ''image'') [] []],
           Elem (plain ''image'') [] [],
           Comment ''c'',
           Elem (plain ''foo'') [] [Text ''un'', Elem (plain ''style'') [] [Text ''known'']],
           Text '' end'']"
  let ?h2 = "snd (new (NP zero_P) empty_heap)"
  have n: "StartElement.Name (tag ''p'' []) = plain ''p''"
    by (simp add: tag_def)
  have a1: "ctx_of (impl (cells ?h1 0)) = Some Mixed"
    by (simp add: ctx_of_def)
  have a2: "keeps_text Mixed"
    by (simp add: keeps_text_def)
  have a3: "0 < nxt ?h1"
    by simp
  have a4: "GetContent ?h1 (Ref 0) = []"
    by (simp add: GetContent_def)
  have a5: "list_all (no_early_close (StartElement.Name (tag ''p'' [])) Mixed) ?ts1"
    by (simp add: child_ctx_def plain_def tag_def)
  have v1: "list_all (in_vocab Mixed) ?ts1"
    by (simp add: child_ctx_def plain_def keeps_text_def)
  have b1: "ctx_of (impl (cells ?h2 0)) = Some Mixed"
    by (simp add: ctx_of_def)
  have b3: "0 < nxt ?h2"
    by simp
  have b4: "GetContent ?h2 (Ref 0) = []"
    by (simp add: GetContent_def)
  have b5: "list_all (no_early_close (StartElement.Name (tag ''p'' [])) Mixed) ?ts2"
    by (simp add: child_ctx_def plain_def tag_def)
  have t1: "tokens_list ?ts1 @ [xml_EndElement (plain ''p'')] =
       [xml_CharData ''text-a'',
        xml_StartElement (tag ''strong'' []), xml_CharData ''bold'', xml_EndElement (plain ''strong''),
        xml_CharData ''text-b'',
        xml_EndElement (plain ''p'')]"
    by (simp add: tokens_list_def tag_def)
  have t2: "tokens_list ?ts2 @ [xml_EndElement (plain ''p'')] =
       [xml_CharData ''see '',
        xml_StartElement (tag ''a'' [(''href'', ''#n1'')]), xml_CharData ''note'',
          xml_StartElement (tag ''image'' []), xml_EndElement (plain ''image''),
        xml_EndElement (plain ''a''),
        xml_StartElement (tag ''image'' []), xml_EndElement (plain ''image''),
        xml_Comment ''c'',
        xml_StartElement (tag ''foo'' []), xml_CharData ''un'',
          xml_StartElement (tag ''style'' []), xml_CharData ''known'', xml_EndElement (plain ''style''),
        xml_EndElement (plain ''foo''),
        xml_CharData '' end'',
        xml_EndElement (plain ''p'')]"
    by (simp add: tokens_list_def tag_def)
  have pl: "placed_all Mixed ?ts2 =
          [Text ''see '',
           Elem (plain ''a'') [\<lparr>Attr.Name = plain ''href'', Value = ''#n1''\<rparr>]
             [Text ''note'', Elem (plain ''image'') [] []],
           Elem (plain ''image'') [] [],
           Text ''un'', Elem (plain ''style'') [] [Text ''known''],
           Text '' end'']"
    by (simp add: placed_all_def child_ctx_def plain_def keeps_text_def)
  from mixed_content_in_document_order [OF a1 a2 a3 a4 a5, of example_lib] v1
  have first: "\<exists>p' h'. UnmarshalXML example_lib 0 (tokens_list ?ts1 @ [xml_EndElement (plain ''p'')])
       None (tag ''p'' []) ?h1 = Return None p' h'
     \<and> read_as h' (GetContent h' (Ref 0)) ?ts1"
    unfolding n by blast
  from mixed_content_in_document_order [OF b1 a2 b3 b4 b5, of example_lib]
  have second: "\<exists>p' h'. UnmarshalXML example_lib 0 (tokens_list ?ts2 @ [xml_EndElement (plain ''p'')])
       None (tag ''p'' []) ?h2 = Return None p' h'
     \<and> read_as h' (GetContent h' (Ref 0)) (placed_all Mixed ?ts2)"
    unfolding n by blast
  from first second show ?thesis
    unfolding t1 t2 pl by (rule conjI)
qed

text \<open>The same two runs, evaluated: the content lists, names and kinds as they are in the store.\<close>

lemma inline_markup_example:
  "(case UnmarshalXML example_lib 0
      [xml_CharData ''text-a'',
       xml_StartElement (tag ''strong'' []), xml_CharData ''bold'', xml_EndElement (plain ''strong''),
       xml_CharData ''text-b'',
       xml_EndElement (plain ''p'')] None
      (tag ''p'' []) (snd (new (NStyleType zero_StyleType) empty_heap)) of
      Panic \<Rightarrow> False
    | Return err p h \<Rightarrow>
        err = None \<and> GetContent h (Ref 0) = [CharData ''text-a'', Ref 1, CharData ''text-b'']
        \<and> GetXMLName 1 h = plain ''strong'' \<and> GetContent h (Ref 1) = [CharData ''bold''])"
  by (simp add: run_defs StyleType_tagCallback_def zero_defs)

lemma inline_link_example:
  "(case UnmarshalXML example_lib 0
       [xml_CharData ''see '',
        xml_StartElement (tag ''a'' [(''href'', ''#n1'')]), xml_CharData ''note'',
          xml_StartElement (tag ''image'' []), xml_EndElement (plain ''image''),
        xml_EndElement (plain ''a''),
        xml_StartElement (tag ''image'' []), xml_EndElement (plain ''image''),
        xml_Comment ''c'',
        xml_StartElement (tag ''foo'' []), xml_CharData ''un'',
          xml_StartElement (tag ''style'' []), xml_CharData ''known'', xml_EndElement (plain ''style''),
        xml_EndElement (plain ''foo''),
        xml_CharData '' end'',
        xml_EndElement (plain ''p'')] None
       (tag ''p'' []) (snd (new (NP zero_P) empty_heap)) of
      Panic \<Rightarrow> False
    | Return err p h \<Rightarrow>
        err = None
        \<and> GetContent h (Ref 0)
            = [CharData ''see '', Ref 1, Ref 3, CharData ''un'', Ref 4, CharData '' end'']
        \<and> impl (cells h 1) = NLink (zero_Link\<lparr>Link.XlinkHref := ''#n1''\<rparr>)
        \<and> GetContent h (Ref 1) = [CharData ''note'', Ref 2]
        \<and> impl (cells h 2) = NInlineImage zero_InlineImage
        \<and> impl (cells h 3) = NInlineImage zero_InlineImage
        \<and> GetXMLName 4 h = plain ''style'' \<and> GetContent h (Ref 4) = [CharData ''known''])"
  by (simp add: run_defs StyleType_tagCallback_def StyleLinkType_tagCallback_def
        Link_attrCallback_def zero_defs Let_def eval_nat_numeral)

text \<open>
  A run against claim C9, on the tokens of a well-formed table of two rows of three cells
  each, in which the first cell of the first row holds a \<^verbatim>\<open>tr\<close> with one \<^verbatim>\<open>td\<close>:
  \<^verbatim>\<open><table><tr><td><tr><td/></tr></td><td/><td/></tr><tr><td/><td/><td/></tr></table>\<close>. A cell
  rejects \<^verbatim>\<open>tr\<close> and \<^verbatim>\<open>td\<close>, so the inner \<^verbatim>\<open></td>\<close> closes the first cell and the inner \<^verbatim>\<open></tr>\<close>
  closes the first row; the two cells that follow are dispatched to the table, which
  rejects them. The first row is left with one cell.
\<close>

theorem nested_row_counterexample:
  "(case UnmarshalXML example_lib 0
      (tokens_list
          [Elem (plain ''tr'') []
             [Elem (plain ''td'') [] [Elem (plain ''tr'') [] [Elem (plain ''td'') [] []]],
              Elem (plain ''td'') [] [], Elem (plain ''td'') [] []],
           Elem (plain ''tr'') []
             [Elem (plain ''td'') [] [], Elem (plain ''td'') [] [], Elem (plain ''td'') [] []]]
        @ [xml_EndElement (plain ''table'')]) None
      (tag ''table'' []) (snd (new (NTable zero_Table) empty_heap)) of
      Panic \<Rightarrow> False
    | Return err p h \<Rightarrow>
        err = None \<and> GetContent h (Ref 0) = [Ref 1, Ref 3]
        \<and> GetContent h (Ref 1) = [Ref 2]
        \<and> GetContent h (Ref 3) = [Ref 4, Ref 5, Ref 6])"
  by (simp add: run_defs tokens_list_def StyleType_tagCallback_def TR_tagCallback_def
        Table_tagCallback_def zero_defs Let_def eval_nat_numeral)



text \<open>The same table, evaluated: two rows at addresses 1 and 7, three cells in each.\<close>

lemma table_example:
  "(case UnmarshalXML example_lib 0
       (tokens_list
          [Text ''\<newline>  '',
           Elem (plain ''tr'') []
             [Text ''\<newline>    '', Elem (plain ''th'') [] [Text ''a''],
              Text ''\<newline>    '', Elem (plain ''th'') [] [Elem (plain ''a'') [] [Text ''b'']],
              Text ''\<newline>    '', Elem (plain ''th'') [] [Elem (plain ''image'') [] []],
              Text ''\<newline>  ''],
           Text ''\<newline>  '', Comment ''second row'', Text ''\<newline>  '',
           Elem (plain ''tr'') []
             [Text ''\<newline>    '', Elem (plain ''td'') [] [Text ''1''],
              Text ''\<newline>    '',
              Elem (plain ''td'') [] [Elem (plain ''style'') [] [Text ''2''], Elem (plain ''foo'') [] []],
              Text ''\<newline>    '',
              Elem (plain ''td'') [\<lparr>Attr.Name = plain ''colspan'', Value = ''12''\<rparr>] [Text ''3''],
              Text ''\<newline>  ''],
           Text ''\<newline>'']
        @ [xml_EndElement (plain ''table'')]) None
      (tag ''table'' []) (snd (new (NTable zero_Table) empty_heap)) of
      Panic \<Rightarrow> False
    | Return err p h \<Rightarrow>
        err = None \<and> GetContent h (Ref 0) = [Ref 1, Ref 7]
        \<and> GetContent h (Ref 1) = [Ref 2, Ref 3, Ref 5]
        \<and> GetContent h (Ref 7) = [Ref 8, Ref 9, Ref 11]
        \<and> GetContent h (Ref 9) = [Ref 10]
        \<and> impl (cells h 11) = NTD (zero_TD\<lparr>TD.Colspan := 12\<rparr>))"
  by (simp add: run_defs tokens_list_def StyleType_tagCallback_def StyleLinkType_tagCallback_def
        TR_tagCallback_def Table_tagCallback_def TD_attrCallback_def zero_defs Let_def
        eval_nat_numeral)

end
